theory Spec2Isabelle
  imports Main "HOL-Library.Word" "HOL-Library.Sublist" "HOL-Library.Multiset"
begin

section \<open>Go library values used by the jobs\<close>

text \<open>
  A Go \<open>time.Time\<close> denotes an instant. The jobs only compare instants
  (\<open>IsZero\<close>, \<open>After\<close>, \<open>Before\<close>), add one day and truncate to a day, so a time is
  modelled as the number of nanoseconds since January 1, year 1, 00:00:00 UTC, which is
  Go's zero time. The comparisons and \<open>Truncate\<close> depend on the instant only. The
  day is added to a date scanned by pgx, which is in UTC, as are the times
  \<open>time.Parse\<close> returns for a layout with no zone.
\<close>

type_synonym Time = int

text \<open>A \<open>float64\<close> is its IEEE-754 bit pattern; the jobs only copy such values.\<close>

type_synonym float64 = "64 word"

definition IsZero :: "Time \<Rightarrow> bool" where
  "IsZero t = (t = 0)"

definition After :: "Time \<Rightarrow> Time \<Rightarrow> bool" where
  "After t u = (t > u)"

definition Before :: "Time \<Rightarrow> Time \<Rightarrow> bool" where
  "Before t u = (t < u)"

definition Hour :: int where
  "Hour = 3600 * 1000000000"

text \<open>\<open>t.AddDate(0, 0, 1)\<close> for a time in UTC: the same clock time on the next day.\<close>

definition AddDate_day :: "Time \<Rightarrow> Time" where
  "AddDate_day t = t + 24 * Hour"

text \<open>\<open>t.Truncate(d)\<close>: round down to a multiple of \<open>d\<close> since the zero time
  (\<open>d \<le> 0\<close> returns \<open>t\<close> unchanged).\<close>

definition Truncate :: "Time \<Rightarrow> int \<Rightarrow> Time" where
  "Truncate t d = (if d \<le> 0 then t else t - t mod d)"

text \<open>
  \<open>time.Date(year, month, day, hour, min, sec, 0, time.UTC)\<close> for a month in 1..12:
  the proleptic Gregorian calendar, counted from the zero time.
\<close>

definition isLeap :: "int \<Rightarrow> bool" where
  "isLeap y = (y mod 4 = 0 \<and> (y mod 100 \<noteq> 0 \<or> y mod 400 = 0))"

definition daysBefore :: "int \<Rightarrow> int \<Rightarrow> int" where
  "daysBefore y m =
     (let cum = [0, 31, 59, 90, 120, 151, 181, 212, 243, 273, 304, 334]
      in cum ! nat (m - 1) + (if 2 < m \<and> isLeap y then 1 else 0))"

definition daysIn :: "int \<Rightarrow> int \<Rightarrow> int" where
  "daysIn m y =
     (if m = 2 then (if isLeap y then 29 else 28)
      else if m = 4 \<or> m = 6 \<or> m = 9 \<or> m = 11 then 30 else 31)"

definition daysSinceZero :: "int \<Rightarrow> int \<Rightarrow> int \<Rightarrow> int" where
  "daysSinceZero y m d =
     365 * (y - 1) + (y - 1) div 4 - (y - 1) div 100 + (y - 1) div 400
       + daysBefore y m + (d - 1)"

definition Date :: "int \<Rightarrow> int \<Rightarrow> int \<Rightarrow> int \<Rightarrow> int \<Rightarrow> int \<Rightarrow> Time" where
  "Date y m d h mi s =
     (((daysSinceZero y m d * 24 + h) * 60 + mi) * 60 + s) * 1000000000"

subsection \<open>Strings\<close>

text \<open>Go strings are byte sequences; \<open>strings.HasSuffix\<close> and \<open>strings.TrimSuffix\<close>
  work on bytes.\<close>

definition HasSuffix :: "string \<Rightarrow> string \<Rightarrow> bool" where
  "HasSuffix s sfx =
     (length s \<ge> length sfx \<and> drop (length s - length sfx) s = sfx)"

definition TrimSuffix :: "string \<Rightarrow> string \<Rightarrow> string" where
  "TrimSuffix s sfx =
     (if HasSuffix s sfx then take (length s - length sfx) s else s)"

section \<open>Field derivation rules\<close>

text \<open>The current-quotes job and the history job define these four functions with the
  same bodies (\<open>deriveCurrencyIn\<close> once as a \<open>switch\<close>, once as an \<open>if\<close>).\<close>

definition deriveCurrencyOut :: "string \<Rightarrow> string" where
  "deriveCurrencyOut ticker = TrimSuffix ticker ''$T''"

definition deriveCurrencyIn :: "string \<Rightarrow> string" where
  "deriveCurrencyIn moneda = (if moneda = ''T'' then ''ART'' else moneda)"

definition deriveRueda :: "string \<Rightarrow> string" where
  "deriveRueda segmento =
     (if segmento = ''Minorista'' then ''CAM2''
      else if segmento = ''Mayorista'' then ''CAM1''
      else segmento)"

text \<open>\<open>fmt.Sprintf("%s / %s %s", currencyOut, currencyIn, plazo)\<close>\<close>

definition buildInstrumento :: "string \<Rightarrow> string \<Rightarrow> string \<Rightarrow> string" where
  "buildInstrumento currencyOut currencyIn plazo =
     currencyOut @ '' / '' @ currencyIn @ '' '' @ plazo"

text \<open>
  \<open>strconv.Atoi\<close> on a 64-bit platform: an optional sign, then one or more decimal
  digits and nothing else; a value outside the range of \<open>int\<close> is an error.
\<close>

definition isDigit :: "char \<Rightarrow> bool" where
  "isDigit ch = (48 \<le> (of_char ch :: nat) \<and> (of_char ch :: nat) \<le> 57)"

definition digitVal :: "char \<Rightarrow> int" where
  "digitVal ch = int (of_char ch :: nat) - 48"

definition decimal :: "string \<Rightarrow> int" where
  "decimal ds = foldl (\<lambda>n ch. n * 10 + digitVal ch) 0 ds"

definition Atoi :: "string \<Rightarrow> int option" where
  "Atoi s =
     (let neg = (s \<noteq> [] \<and> hd s = CHR ''-'');
          ds = (if s \<noteq> [] \<and> (hd s = CHR ''-'' \<or> hd s = CHR ''+'') then tl s else s);
          n = (if neg then - decimal ds else decimal ds)
      in if ds = [] \<or> \<not> list_all isDigit ds then None
         else if n < - (2 ^ 63) \<or> 2 ^ 63 - 1 < n then None
         else Some n)"

section \<open>The database as the jobs see it\<close>

text \<open>
  A value passed to or read from PostgreSQL, and a stored row as the list of its
  columns. A column an INSERT does not name reads as NULL.
\<close>

datatype sqlval = Null | Text string | Integer int | Float float64 | Timestamp Time

type_synonym dbrow = "(string \<times> sqlval) list"

definition col :: "dbrow \<Rightarrow> string \<Rightarrow> sqlval" where
  "col r c = (case map_of r c of Some v \<Rightarrow> v | None \<Rightarrow> Null)"

text \<open>How pgx encodes the Go values the jobs pass: a nil pointer and a bare \<open>nil\<close>
  are NULL.\<close>

definition intPtr :: "int option \<Rightarrow> sqlval" where
  "intPtr p = (case p of None \<Rightarrow> Null | Some i \<Rightarrow> Integer i)"

definition timePtr :: "Time option \<Rightarrow> sqlval" where
  "timePtr p = (case p of None \<Rightarrow> Null | Some t \<Rightarrow> Timestamp t)"

text \<open>
  What one run does to the table it writes: \<open>execs\<close> are the rows passed to
  \<open>conn.Exec\<close>, in order, and \<open>stored\<close> those of them the database accepted.
  Whether the k-th \<open>Exec\<close> of a run succeeds is decided by the database, so it is a
  parameter \<open>ok\<close> of the model.
\<close>

record conn =
  execs :: "dbrow list"
  stored :: "dbrow list"

definition fresh :: conn where
  "fresh = \<lparr>execs = [], stored = []\<rparr>"

definition Exec :: "(nat \<Rightarrow> bool) \<Rightarrow> conn \<Rightarrow> string list \<Rightarrow> sqlval list \<Rightarrow> conn \<times> bool" where
  "Exec ok c cols args =
     (let row = zip cols args; k = length (execs c)
      in if ok k then (\<lparr>execs = execs c @ [row], stored = stored c @ [row]\<rparr>, True)
         else (\<lparr>execs = execs c @ [row], stored = stored c\<rparr>, False))"

text \<open>
  Process events: a connection opened or closed (by label) and the process ending
  through \<open>os.Exit\<close>, which \<open>log.Fatalf\<close> calls. A function that returns runs its
  deferred calls; \<open>os.Exit\<close> runs none.
\<close>

datatype event = Open string | Close string | Exit int

text \<open>\<open>returns tr deferred\<close>: the function returns after the events \<open>tr\<close> and its
  deferred \<open>Close\<close> calls run, the last deferred first. \<open>fatal tr\<close>: \<open>log.Fatalf\<close>
  ends the process with status 1 and no deferred call runs.\<close>

definition returns :: "event list \<Rightarrow> string list \<Rightarrow> event list" where
  "returns tr deferred = tr @ map Close deferred"

definition fatal :: "event list \<Rightarrow> event list" where
  "fatal tr = tr @ [Exit 1]"

text \<open>The connections a trace leaves open.\<close>

fun unreleased :: "event list \<Rightarrow> string list \<Rightarrow> string list" where
  "unreleased [] opened = opened"
| "unreleased (Open l # tr) opened = unreleased tr (opened @ [l])"
| "unreleased (Close l # tr) opened = unreleased tr (removeAll l opened)"
| "unreleased (Exit n # tr) opened = opened"

section \<open>The current-quotes job\<close>

record ForexData =
  Fecha :: string
  Ticker :: string
  Descripcion :: string
  TipoEmision :: string
  Segmento :: string
  CodigoSegmento :: string
  Plazo :: string
  CodigoPlazo :: string
  Moneda :: string
  FechaLiquidacion :: string
  VolumenAcumulado :: int
  MontoAcumulado :: float64
  PrecioUltimo :: float64
  UltimaTasa :: float64
  PrecioCierreAnterior :: float64
  PrecioMinimo :: float64
  PrecioMaximo :: float64
  OpenInterest :: int
  PrecioCierre :: float64
  Variacion :: float64

text \<open>
  \<open>time.Parse\<close> belongs to Go's standard library, not to this repository: the models
  take it as a parameter \<open>tp\<close>, from a layout and a value to the parsed time, or
  \<open>None\<close> for an error.
\<close>

type_synonym parser = "string \<Rightarrow> string \<Rightarrow> Time option"

definition layoutISO :: string where
  "layoutISO = ''2006-01-02T15:04:05''"

text \<open>The column list of the job's INSERT statement and the arguments of its
  \<open>conn.Exec\<close>, both in the order of the source.\<close>

definition forex_cols :: "string list" where
  "forex_cols =
     [''date'', ''rueda'', ''instrumento'', ''currency_out'', ''currency_in'', ''settle'',
      ''settle_date'', ''monto'', ''cotizacion'', ''hora'',
      ''descripcion'', ''tipo_emision'', ''codigo_segmento'', ''codigo_plazo'', ''moneda'',
      ''monto_acumulado'',
      ''precio_ultimo'', ''ultima_tasa'', ''precio_cierre_anterior'', ''precio_minimo'',
      ''precio_maximo'',
      ''open_interest'', ''variacion'']"

definition settleOf :: "string \<Rightarrow> int option" where
  "settleOf plazo = (if plazo \<noteq> [] then Atoi plazo else None)"

definition settleDateOf :: "parser \<Rightarrow> string \<Rightarrow> Time option" where
  "settleDateOf tp fl =
     (if fl \<noteq> [] \<and> fl \<noteq> ''0001-01-01T00:00:00'' then tp layoutISO fl else None)"

definition forex_args :: "parser \<Rightarrow> Time \<Rightarrow> ForexData \<Rightarrow> sqlval list" where
  "forex_args tp fecha d =
     (let currencyOut = deriveCurrencyOut (Ticker d);
          currencyIn = deriveCurrencyIn (Moneda d);
          rueda = deriveRueda (Segmento d);
          instrumento = buildInstrumento currencyOut currencyIn (Plazo d);
          settleVal = settleOf (Plazo d);
          settleDateVal = settleDateOf tp (FechaLiquidacion d)
      in [Timestamp fecha, Text rueda, Text instrumento, Text currencyOut, Text currencyIn,
          intPtr settleVal, timePtr settleDateVal, Integer (VolumenAcumulado d),
          Float (PrecioCierre d), Null,
          Text (Descripcion d), Text (TipoEmision d), Text (CodigoSegmento d),
          Text (CodigoPlazo d), Text (Moneda d), Float (MontoAcumulado d),
          Float (PrecioUltimo d), Float (UltimaTasa d), Float (PrecioCierreAnterior d),
          Float (PrecioMinimo d), Float (PrecioMaximo d),
          Integer (OpenInterest d), Float (Variacion d)])"

text \<open>The loop state: the connection, \<open>successfulInserts\<close> and \<open>skipped\<close>.\<close>

type_synonym loopst = "conn \<times> nat \<times> nat"

fun saveLoop :: "parser \<Rightarrow> (nat \<Rightarrow> bool) \<Rightarrow> Time \<Rightarrow> ForexData list \<Rightarrow> loopst \<Rightarrow> loopst" where
  "saveLoop tp ok lastDate [] st = st"
| "saveLoop tp ok lastDate (d # ds) (c, successfulInserts, skipped) =
     (case tp layoutISO (Fecha d) of
        None \<Rightarrow> saveLoop tp ok lastDate ds (c, successfulInserts, skipped)
      | Some fecha \<Rightarrow>
          if \<not> IsZero lastDate \<and> \<not> After fecha lastDate
          then saveLoop tp ok lastDate ds (c, successfulInserts, skipped + 1)
          else (case Exec ok c forex_cols (forex_args tp fecha d) of
                  (c', True) \<Rightarrow> saveLoop tp ok lastDate ds (c', successfulInserts + 1, skipped)
                | (c', False) \<Rightarrow> saveLoop tp ok lastDate ds (c', successfulInserts, skipped)))"

text \<open>
  What the database answers in one run of the job: whether \<open>pgx.Connect\<close> and
  \<open>conn.Prepare\<close> succeed, the outcome of the \<open>MAX(date)\<close> query (\<open>None\<close>: the query
  failed; \<open>Some None\<close>: the maximum is NULL, the table has no rows; \<open>Some (Some t)\<close>:
  the maximum stored date) and the outcome of each \<open>Exec\<close>.
\<close>

record env =
  connect_ok :: bool
  max_date :: "Time option option"
  prepare_ok :: bool
  exec_ok :: "nat \<Rightarrow> bool"

text \<open>\<open>Scan(&lastDate)\<close> on the \<open>MAX(date)\<close> query: an error, also that of scanning
  NULL into a \<open>time.Time\<close>, is logged and leaves \<open>lastDate\<close> the zero time.\<close>

definition scanLastDate :: "Time option option \<Rightarrow> Time" where
  "scanLastDate q = (case q of Some (Some t) \<Rightarrow> t | _ \<Rightarrow> 0)"

record run =
  trace :: "event list"
  db :: conn
  rows_inserted :: nat
  rows_skipped :: nat

definition saveToDatabase :: "parser \<Rightarrow> env \<Rightarrow> ForexData list \<Rightarrow> run" where
  "saveToDatabase tp e data =
     (if data = [] then \<lparr>trace = returns [] [], db = fresh, rows_inserted = 0, rows_skipped = 0\<rparr>
      else if \<not> connect_ok e
      then \<lparr>trace = fatal [], db = fresh, rows_inserted = 0, rows_skipped = 0\<rparr>
      else
        let lastDate = scanLastDate (max_date e) in
        if \<not> prepare_ok e
        then \<lparr>trace = returns [Open ''conn''] [''conn''], db = fresh,
               rows_inserted = 0, rows_skipped = 0\<rparr>
        else
          (case saveLoop tp (exec_ok e) lastDate data (fresh, 0, 0) of
             (c, successfulInserts, skipped) \<Rightarrow>
               \<lparr>trace = returns [Open ''conn''] [''conn''], db = c,
                 rows_inserted = successfulInserts, rows_skipped = skipped\<rparr>))"

section \<open>The history job\<close>

record ForexDetail =
  Fecha' :: string
  Ticker' :: string
  Descripcion' :: string
  Moneda' :: string
  Plazo' :: string
  CodigoPlazo' :: string
  Segmento' :: string
  CodigoSegmento' :: string
  Volumen' :: float64
  Monto' :: float64
  Minimo' :: float64
  Maximo' :: float64
  Ultimo' :: float64
  Variacion' :: float64
  TipoEmision' :: string
  PrecioCierre' :: float64
  FechaLiquidacion' :: string
  UltimaTasa' :: float64
  CierreAnterior' :: float64
  OpenInterest' :: int

record HistoricoResponse =
  DayFecha :: string
  DayVolumen :: float64
  Details :: "ForexDetail list"

text \<open>
  \<open>getLastDate\<close> runs \<open>SELECT COALESCE(MAX(date), '1900-01-01')\<close>. Its argument is
  the outcome of the aggregate: \<open>None\<close> when the query fails (the function logs and
  returns \<open>time.Time{}\<close>), \<open>Some None\<close> when the table has no rows (\<open>COALESCE\<close>
  then yields 1900-01-01), \<open>Some (Some t)\<close> for the maximum stored date.
\<close>

definition getLastDate :: "Time option option \<Rightarrow> Time" where
  "getLastDate q =
     (case q of
        None \<Rightarrow> 0
      | Some None \<Rightarrow> Date 1900 1 1 0 0 0
      | Some (Some t) \<Rightarrow> t)"

definition historico_cols :: "string list" where
  "historico_cols =
     [''date'', ''rueda'', ''instrumento'', ''currency_out'', ''currency_in'', ''settle'',
      ''settle_date'',
      ''monto'', ''cotizacion'', ''hora'',
      ''descripcion'', ''tipo_emision'', ''codigo_segmento'', ''codigo_plazo'', ''moneda'',
      ''precio_ultimo'', ''ultima_tasa'', ''precio_cierre_anterior'',
      ''precio_minimo'', ''precio_maximo'', ''open_interest'', ''variacion'',
      ''monto_acumulado'']"

definition historico_args :: "parser \<Rightarrow> Time \<Rightarrow> ForexDetail \<Rightarrow> sqlval list" where
  "historico_args tp fecha d =
     (let currencyOut = deriveCurrencyOut (Ticker' d);
          currencyIn = deriveCurrencyIn (Moneda' d);
          rueda = deriveRueda (Segmento' d);
          instrumento = buildInstrumento currencyOut currencyIn (Plazo' d);
          settleVal = settleOf (Plazo' d);
          settleDateVal = settleDateOf tp (FechaLiquidacion' d)
      in [Timestamp fecha, Text rueda, Text instrumento, Text currencyOut, Text currencyIn,
          intPtr settleVal, timePtr settleDateVal, Float (Volumen' d),
          Float (PrecioCierre' d), Null,
          Text (Descripcion' d), Text (TipoEmision' d), Text (CodigoSegmento' d),
          Text (CodigoPlazo' d), Text (Moneda' d), Float (Ultimo' d),
          Float (UltimaTasa' d), Float (CierreAnterior' d), Float (Minimo' d),
          Float (Maximo' d), Integer (OpenInterest' d), Float (Variacion' d),
          Float (Monto' d)])"

text \<open>The inner loop of \<open>insertData\<close>, over the details of one day, and the outer
  loop over the days; the state is the connection and \<open>inserted\<close>.\<close>

fun insertDetails :: "parser \<Rightarrow> (nat \<Rightarrow> bool) \<Rightarrow> ForexDetail list \<Rightarrow> conn \<times> nat \<Rightarrow> conn \<times> nat" where
  "insertDetails tp ok [] st = st"
| "insertDetails tp ok (d # ds) (c, inserted) =
     (case tp layoutISO (Fecha' d) of
        None \<Rightarrow> insertDetails tp ok ds (c, inserted)
      | Some fecha \<Rightarrow>
          (case Exec ok c historico_cols (historico_args tp fecha d) of
             (c', True) \<Rightarrow> insertDetails tp ok ds (c', inserted + 1)
           | (c', False) \<Rightarrow> insertDetails tp ok ds (c', inserted)))"

fun insertDays :: "parser \<Rightarrow> (nat \<Rightarrow> bool) \<Rightarrow> HistoricoResponse list \<Rightarrow> conn \<times> nat \<Rightarrow> conn \<times> nat" where
  "insertDays tp ok [] st = st"
| "insertDays tp ok (day # days) st =
     insertDays tp ok days (insertDetails tp ok (Details day) st)"

definition insertData :: "parser \<Rightarrow> env \<Rightarrow> HistoricoResponse list \<Rightarrow> conn \<times> nat" where
  "insertData tp e data =
     (if \<not> prepare_ok e then (fresh, 0)
      else insertDays tp (exec_ok e) data (fresh, 0))"

fun totalDetails :: "HistoricoResponse list \<Rightarrow> nat" where
  "totalDetails [] = 0"
| "totalDetails (day # days) = length (Details day) + totalDetails days"

text \<open>
  A run of the history job also depends on the clock (\<open>time.Now()\<close>) and on what
  \<open>fetchHistoricoForex\<close> returns for a range: \<open>None\<close> is its \<open>nil\<close>, returned for
  every failure of the request. The range is the pair of times \<open>main\<close> passes to
  \<open>fetchHistoricoForex\<close>, recorded in \<open>fetches\<close>; how they are formatted into the
  request is not modelled.
\<close>

record henv = env +
  now :: Time
  fetch :: "Time \<Rightarrow> Time \<Rightarrow> HistoricoResponse list option"

datatype ending = ConnectFailed | UpToDate | FetchFailed | NoData | Loaded

record hrun = run +
  ending :: ending
  fetches :: "(Time \<times> Time) list"

definition main_historico :: "parser \<Rightarrow> henv \<Rightarrow> hrun" where
  "main_historico tp e =
     (if \<not> connect_ok e
      then \<lparr>trace = fatal [], db = fresh, rows_inserted = 0, rows_skipped = 0,
             ending = ConnectFailed, fetches = []\<rparr>
      else
        let today = Truncate (now e) (24 * Hour);
            lastDate = getLastDate (max_date e)
        in
        if \<not> IsZero lastDate \<and> \<not> Before lastDate today
        then \<lparr>trace = returns [Open ''conn''] [''conn''], db = fresh, rows_inserted = 0,
               rows_skipped = 0, ending = UpToDate, fetches = []\<rparr>
        else
          let fechaDesde = (if IsZero lastDate then today else AddDate_day lastDate);
              fechaHasta = today
          in
          (case fetch e fechaDesde fechaHasta of
             None \<Rightarrow>
               \<lparr>trace = returns [Open ''conn''] [''conn''], db = fresh, rows_inserted = 0,
                 rows_skipped = 0, ending = FetchFailed,
                 fetches = [(fechaDesde, fechaHasta)]\<rparr>
           | Some data \<Rightarrow>
               if totalDetails data = 0
               then \<lparr>trace = returns [Open ''conn''] [''conn''], db = fresh, rows_inserted = 0,
                      rows_skipped = 0, ending = NoData,
                      fetches = [(fechaDesde, fechaHasta)]\<rparr>
               else
                 (case insertData tp (env.truncate e) data of
                    (c, n) \<Rightarrow>
                      \<lparr>trace = returns [Open ''conn''] [''conn''], db = c, rows_inserted = n,
                        rows_skipped = 0, ending = Loaded,
                        fetches = [(fechaDesde, fechaHasta)]\<rparr>)))"

section \<open>The cross-database sync job\<close>

text \<open>The column list of the SELECT on the local database and of the INSERT on the
  cloud database.\<close>

definition sync_select_cols :: "string list" where
  "sync_select_cols =
     [''date'', ''rueda'', ''instrumento'', ''currency_out'', ''currency_in'', ''settle'',
      ''settle_date'',
      ''monto'', ''cotizacion'', ''hora'', ''descripcion'', ''tipo_emision'',
      ''codigo_segmento'',
      ''codigo_plazo'', ''moneda'', ''monto_acumulado'', ''precio_ultimo'', ''ultima_tasa'',
      ''precio_cierre_anterior'', ''precio_minimo'', ''precio_maximo'', ''open_interest'',
      ''variacion'']"

definition sync_insert_cols :: "string list" where
  "sync_insert_cols =
     [''date'', ''rueda'', ''instrumento'', ''currency_out'', ''currency_in'', ''settle'',
      ''settle_date'',
      ''monto'', ''cotizacion'', ''hora'', ''descripcion'', ''tipo_emision'',
      ''codigo_segmento'',
      ''codigo_plazo'', ''moneda'', ''monto_acumulado'', ''precio_ultimo'', ''ultima_tasa'',
      ''precio_cierre_anterior'', ''precio_minimo'', ''precio_maximo'', ''open_interest'',
      ''variacion'']"

text \<open>The Go variables of the loop body with their declared types, in the order
  \<open>rows.Scan\<close> fills them, and the order \<open>cloudConn.Exec\<close> passes them.\<close>

datatype gotype = TimeVal | StringPtr | IntPtr | TimePtr | FloatPtr

definition scan_dests :: "(string \<times> gotype) list" where
  "scan_dests =
     [(''date'', TimeVal), (''rueda'', StringPtr), (''instrumento'', StringPtr),
      (''currencyOut'', StringPtr), (''currencyIn'', StringPtr),
      (''settle'', IntPtr), (''settleDate'', TimePtr), (''monto'', FloatPtr),
      (''cotizacion'', FloatPtr), (''hora'', StringPtr),
      (''descripcion'', StringPtr), (''tipoEmision'', StringPtr),
      (''codigoSegmento'', StringPtr), (''codigoPlazo'', StringPtr), (''moneda'', StringPtr),
      (''montoAcumulado'', FloatPtr), (''precioUltimo'', FloatPtr), (''ultimaTasa'', FloatPtr),
      (''precioCierreAnterior'', FloatPtr), (''precioMinimo'', FloatPtr),
      (''precioMaximo'', FloatPtr),
      (''openInterest'', IntPtr), (''variacion'', FloatPtr)]"

definition exec_args :: "string list" where
  "exec_args =
     [''date'', ''rueda'', ''instrumento'', ''currencyOut'', ''currencyIn'',
      ''settle'', ''settleDate'', ''monto'', ''cotizacion'', ''hora'',
      ''descripcion'', ''tipoEmision'', ''codigoSegmento'', ''codigoPlazo'', ''moneda'',
      ''montoAcumulado'', ''precioUltimo'', ''ultimaTasa'',
      ''precioCierreAnterior'', ''precioMinimo'', ''precioMaximo'',
      ''openInterest'', ''variacion'']"

text \<open>A value can be scanned into a variable of the type: NULL only into a pointer.\<close>

fun fits :: "gotype \<Rightarrow> sqlval \<Rightarrow> bool" where
  "fits TimeVal (Timestamp t) = True"
| "fits TimeVal v = False"
| "fits ty Null = True"
| "fits StringPtr (Text x) = True"
| "fits IntPtr (Integer i) = True"
| "fits TimePtr (Timestamp t) = True"
| "fits FloatPtr (Float f) = True"
| "fits ty v = False"

text \<open>\<open>rows.Scan\<close>: the values of one result row go to the variables by position.
  \<open>good\<close> is the driver's verdict on the row beyond the types.\<close>

definition Scan :: "bool \<Rightarrow> sqlval list \<Rightarrow> dbrow option" where
  "Scan good vals =
     (if good \<and> list_all2 fits (map snd scan_dests) vals
      then Some (zip (map fst scan_dests) vals) else None)"

text \<open>
  The SELECT, as PostgreSQL evaluates it on the rows \<open>src\<close> of the local table:
  \<open>WHERE date > $1\<close> keeps the rows with a date after the parameter (a NULL date
  compares as unknown and is left out), \<open>ORDER BY date\<close> sorts them, and each row
  is delivered as the values of the selected columns.
\<close>

definition date_of :: "dbrow \<Rightarrow> Time" where
  "date_of r = (case col r ''date'' of Timestamp t \<Rightarrow> t | _ \<Rightarrow> 0)"

definition date_after :: "Time \<Rightarrow> dbrow \<Rightarrow> bool" where
  "date_after lastDate r =
     (case col r ''date'' of Timestamp t \<Rightarrow> t > lastDate | _ \<Rightarrow> False)"

definition Query :: "dbrow list \<Rightarrow> Time \<Rightarrow> sqlval list list" where
  "Query src lastDate =
     map (\<lambda>r. map (col r) sync_select_cols)
       (sort_key date_of (filter (date_after lastDate) src))"

text \<open>The loop over the result rows; \<open>i\<close> numbers the rows, the state is the cloud
  connection and \<open>inserted\<close>.\<close>

fun syncLoop :: "(nat \<Rightarrow> bool) \<Rightarrow> (nat \<Rightarrow> bool) \<Rightarrow> nat \<Rightarrow> sqlval list list \<Rightarrow> conn \<times> nat \<Rightarrow> conn \<times> nat" where
  "syncLoop good ok i [] st = st"
| "syncLoop good ok i (vals # rest) (c, inserted) =
     (case Scan (good i) vals of
        None \<Rightarrow> syncLoop good ok (i + 1) rest (c, inserted)
      | Some vars \<Rightarrow>
          (case Exec ok c sync_insert_cols (map (col vars) exec_args) of
             (c', True) \<Rightarrow> syncLoop good ok (i + 1) rest (c', inserted + 1)
           | (c', False) \<Rightarrow> syncLoop good ok (i + 1) rest (c', inserted)))"

text \<open>
  What the two databases answer in one run: whether each \<open>pgx.Connect\<close> succeeds,
  the outcome of the aggregate on the cloud table (as for \<open>getLastDate\<close>), the rows of
  the local table (\<open>None\<close>: the SELECT fails), whether \<open>Prepare\<close> succeeds, and the
  outcome of each \<open>Scan\<close> and \<open>Exec\<close>.
\<close>

record senv =
  local_ok :: bool
  cloud_ok :: bool
  cloud_max :: "Time option option"
  local_rows :: "dbrow list option"
  cloud_prepare_ok :: bool
  scan_ok :: "nat \<Rightarrow> bool"
  cloud_exec_ok :: "nat \<Rightarrow> bool"

definition main_sync :: "senv \<Rightarrow> run" where
  "main_sync e =
     (if \<not> local_ok e
      then \<lparr>trace = fatal [], db = fresh, rows_inserted = 0, rows_skipped = 0\<rparr>
      else if \<not> cloud_ok e
      then \<lparr>trace = fatal [Open ''local''], db = fresh, rows_inserted = 0, rows_skipped = 0\<rparr>
      else
        (case cloud_max e of
           None \<Rightarrow>
             \<lparr>trace = fatal [Open ''local'', Open ''gcloud''], db = fresh,
               rows_inserted = 0, rows_skipped = 0\<rparr>
         | Some m \<Rightarrow>
             let lastDate = (case m of None \<Rightarrow> Date 1900 1 1 0 0 0 | Some t \<Rightarrow> t) in
             (case local_rows e of
                None \<Rightarrow>
                  \<lparr>trace = fatal [Open ''local'', Open ''gcloud''], db = fresh,
                    rows_inserted = 0, rows_skipped = 0\<rparr>
              | Some src \<Rightarrow>
                  if \<not> cloud_prepare_ok e
                  then \<lparr>trace = fatal [Open ''local'', Open ''gcloud''], db = fresh,
                         rows_inserted = 0, rows_skipped = 0\<rparr>
                  else
                    (case syncLoop (scan_ok e) (cloud_exec_ok e) 0 (Query src lastDate)
                            (fresh, 0) of
                       (c, inserted) \<Rightarrow>
                         \<lparr>trace = returns [Open ''local'', Open ''gcloud'']
                                    [''gcloud'', ''local''],
                           db = c, rows_inserted = inserted, rows_skipped = 0\<rparr>))))"

section \<open>The legacy job\<close>

text \<open>
  One row of the data frame \<open>fetchForexData\<close> builds. \<open>Val(i)\<close> of a cell is \<open>nil\<close>
  for a missing value (\<open>None\<close>); the date column is built from Go strings and is
  read with a plain type assertion.
\<close>

record dfrow =
  date_col :: string
  rueda_col :: "string option"
  instrumento_col :: "string option"
  currency_out_col :: "string option"
  currency_in_col :: "string option"
  settle_col :: "string option"
  settle_date_col :: "string option"
  monto_col :: "float64 option"
  cotizacion_col :: "float64 option"
  hora_col :: "string option"

definition strVal :: "string option \<Rightarrow> sqlval" where
  "strVal v = (case v of None \<Rightarrow> Null | Some x \<Rightarrow> Text x)"

definition floatVal :: "float64 option \<Rightarrow> sqlval" where
  "floatVal v = (case v of None \<Rightarrow> Null | Some f \<Rightarrow> Float f)"

definition legacy_cols :: "string list" where
  "legacy_cols =
     [''date'', ''rueda'', ''instrumento'', ''currency_out'', ''currency_in'', ''settle'',
      ''settle_date'', ''monto'', ''cotizacion'', ''hora'']"

definition legacy_settle :: "string option \<Rightarrow> int option" where
  "legacy_settle cell =
     (case cell of
        Some settleStr \<Rightarrow> (if settleStr \<noteq> [] then Atoi settleStr else None)
      | None \<Rightarrow> None)"

definition legacy_settle_date :: "parser \<Rightarrow> string option \<Rightarrow> Time option" where
  "legacy_settle_date tp cell =
     (case cell of
        Some settleDateStr \<Rightarrow> (if settleDateStr \<noteq> [] then tp ''060102'' settleDateStr else None)
      | None \<Rightarrow> None)"

definition legacy_args :: "parser \<Rightarrow> Time \<Rightarrow> dfrow \<Rightarrow> sqlval list" where
  "legacy_args tp date r =
     (let settleVal = legacy_settle (settle_col r);
          settleDateVal = legacy_settle_date tp (settle_date_col r)
      in [Timestamp date, strVal (rueda_col r), strVal (instrumento_col r),
          strVal (currency_out_col r), strVal (currency_in_col r),
          intPtr settleVal, timePtr settleDateVal,
          floatVal (monto_col r), floatVal (cotizacion_col r), strVal (hora_col r)])"

text \<open>The first loop collects \<open>rowsToInsert\<close>, the second passes them to \<open>Exec\<close>.\<close>

fun rowsToInsert :: "parser \<Rightarrow> Time \<Rightarrow> dfrow list \<Rightarrow> sqlval list list" where
  "rowsToInsert tp lastDate [] = []"
| "rowsToInsert tp lastDate (r # rs) =
     (case tp ''2006-01-02'' (date_col r) of
        None \<Rightarrow> rowsToInsert tp lastDate rs
      | Some date \<Rightarrow>
          if IsZero lastDate \<or> After date lastDate
          then legacy_args tp date r # rowsToInsert tp lastDate rs
          else rowsToInsert tp lastDate rs)"

fun execRows :: "(nat \<Rightarrow> bool) \<Rightarrow> sqlval list list \<Rightarrow> conn \<times> nat \<Rightarrow> conn \<times> nat" where
  "execRows ok [] st = st"
| "execRows ok (row # rows) (c, successfulInserts) =
     (case Exec ok c legacy_cols row of
        (c', True) \<Rightarrow> execRows ok rows (c', successfulInserts + 1)
      | (c', False) \<Rightarrow> execRows ok rows (c', successfulInserts))"

definition saveToDatabase_legacy :: "parser \<Rightarrow> env \<Rightarrow> dfrow list \<Rightarrow> run" where
  "saveToDatabase_legacy tp e df =
     (if df = [] then \<lparr>trace = returns [] [], db = fresh, rows_inserted = 0, rows_skipped = 0\<rparr>
      else if \<not> connect_ok e
      then \<lparr>trace = fatal [], db = fresh, rows_inserted = 0, rows_skipped = 0\<rparr>
      else
        let lastDate = scanLastDate (max_date e);
            rows = rowsToInsert tp lastDate df
        in
        if rows = []
        then \<lparr>trace = returns [Open ''conn''] [''conn''], db = fresh,
               rows_inserted = 0, rows_skipped = 0\<rparr>
        else if \<not> prepare_ok e
        then \<lparr>trace = returns [Open ''conn''] [''conn''], db = fresh,
               rows_inserted = 0, rows_skipped = 0\<rparr>
        else
          (case execRows (exec_ok e) rows (fresh, 0) of
             (c, successfulInserts) \<Rightarrow>
               \<lparr>trace = returns [Open ''conn''] [''conn''], db = c,
                 rows_inserted = successfulInserts, rows_skipped = 0\<rparr>))"

section \<open>An instance of the parser\<close>

text \<open>
  To evaluate the models on concrete input, \<open>time_Parse\<close> reads the three layouts the
  jobs use from input of exactly the width the layout shows: four-digit or two-digit
  year (69..99 are 19xx, 00..68 are 20xx), two-digit month, day, hour, minute and
  second, the separators of the layout, and a day that exists in the month.
\<close>

definition digits :: "string \<Rightarrow> int option" where
  "digits ds = (if ds \<noteq> [] \<and> list_all isDigit ds then Some (decimal ds) else None)"

definition field :: "string \<Rightarrow> nat \<Rightarrow> nat \<Rightarrow> string" where
  "field v i n = take n (drop i v)"

definition civil :: "int \<Rightarrow> int \<Rightarrow> int \<Rightarrow> int \<Rightarrow> int \<Rightarrow> int \<Rightarrow> Time option" where
  "civil y m d h mi s =
     (if m < 1 \<or> 12 < m \<or> 24 \<le> h \<or> 60 \<le> mi \<or> 60 \<le> s \<or> d < 1 \<or> daysIn m y < d
      then None else Some (Date y m d h mi s))"

definition time_Parse :: parser where
  "time_Parse layout v =
     (if layout = ''2006-01-02T15:04:05'' then
        (if length v = 19 \<and> field v 4 1 = ''-'' \<and> field v 7 1 = ''-'' \<and> field v 10 1 = ''T''
            \<and> field v 13 1 = '':'' \<and> field v 16 1 = '':''
         then
           Option.bind (digits (field v 0 4)) (\<lambda>y.
           Option.bind (digits (field v 5 2)) (\<lambda>m.
           Option.bind (digits (field v 8 2)) (\<lambda>d.
           Option.bind (digits (field v 11 2)) (\<lambda>h.
           Option.bind (digits (field v 14 2)) (\<lambda>mi.
           Option.bind (digits (field v 17 2)) (\<lambda>s. civil y m d h mi s))))))
         else None)
      else if layout = ''2006-01-02'' then
        (if length v = 10 \<and> field v 4 1 = ''-'' \<and> field v 7 1 = ''-''
         then
           Option.bind (digits (field v 0 4)) (\<lambda>y.
           Option.bind (digits (field v 5 2)) (\<lambda>m.
           Option.bind (digits (field v 8 2)) (\<lambda>d. civil y m d 0 0 0)))
         else None)
      else if layout = ''060102'' then
        (if length v = 6
         then
           Option.bind (digits (field v 0 2)) (\<lambda>yy.
           Option.bind (digits (field v 2 2)) (\<lambda>m.
           Option.bind (digits (field v 4 2)) (\<lambda>d.
             civil (if 69 \<le> yy then 1900 + yy else 2000 + yy) m d 0 0 0)))
         else None)
      else None)"

section \<open>Reading a run\<close>

text \<open>Of the rows passed to \<open>Exec\<close> from the k-th call on, those the database
  accepts.\<close>

fun accepted :: "(nat \<Rightarrow> bool) \<Rightarrow> nat \<Rightarrow> 'a list \<Rightarrow> 'a list" where
  "accepted ok k [] = []"
| "accepted ok k (r # rs) =
     (if ok k then r # accepted ok (k + 1) rs else accepted ok (k + 1) rs)"

text \<open>The row each job's INSERT writes for a record with a parsed date.\<close>

definition quote_row :: "parser \<Rightarrow> Time \<Rightarrow> ForexData \<Rightarrow> dbrow" where
  "quote_row tp fecha d = zip forex_cols (forex_args tp fecha d)"

definition detail_row :: "parser \<Rightarrow> Time \<Rightarrow> ForexDetail \<Rightarrow> dbrow" where
  "detail_row tp fecha d = zip historico_cols (historico_args tp fecha d)"

definition legacy_row :: "parser \<Rightarrow> Time \<Rightarrow> dfrow \<Rightarrow> dbrow" where
  "legacy_row tp date r = zip legacy_cols (legacy_args tp date r)"

text \<open>
  The incremental load in the words of its contract: a cutoff is the maximum stored
  date, or none for a table with no rows; a date qualifies when it is strictly after
  the cutoff, and every date qualifies when there is none.
\<close>

definition after_cutoff :: "Time option \<Rightarrow> Time \<Rightarrow> bool" where
  "after_cutoff cutoff t = (case cutoff of None \<Rightarrow> True | Some c \<Rightarrow> c < t)"

definition qualifying :: "parser \<Rightarrow> Time option \<Rightarrow> ForexData list \<Rightarrow> dbrow list" where
  "qualifying tp cutoff data =
     List.map_filter (\<lambda>d.
        case tp layoutISO (Fecha d) of
          None \<Rightarrow> None
        | Some fecha \<Rightarrow> if after_cutoff cutoff fecha then Some (quote_row tp fecha d) else None)
       data"

definition qualifying_legacy :: "parser \<Rightarrow> Time option \<Rightarrow> dfrow list \<Rightarrow> dbrow list" where
  "qualifying_legacy tp cutoff df =
     List.map_filter (\<lambda>r.
        case tp ''2006-01-02'' (date_col r) of
          None \<Rightarrow> None
        | Some date \<Rightarrow> if after_cutoff cutoff date then Some (legacy_row tp date r) else None)
       df"

text \<open>The rows the loop of the current-quotes job passes to \<open>Exec\<close> for a value
  of \<open>lastDate\<close>, the records it counts as skipped, and the rows a batch of details
  yields: one for each detail whose date parses.\<close>

definition submitted :: "parser \<Rightarrow> Time \<Rightarrow> ForexData list \<Rightarrow> dbrow list" where
  "submitted tp lastDate data =
     List.map_filter (\<lambda>d.
        case tp layoutISO (Fecha d) of
          None \<Rightarrow> None
        | Some fecha \<Rightarrow>
            if \<not> IsZero lastDate \<and> \<not> After fecha lastDate then None
            else Some (quote_row tp fecha d))
       data"

definition submitted_legacy :: "parser \<Rightarrow> Time \<Rightarrow> dfrow list \<Rightarrow> dbrow list" where
  "submitted_legacy tp lastDate df =
     List.map_filter (\<lambda>r.
        case tp ''2006-01-02'' (date_col r) of
          None \<Rightarrow> None
        | Some date \<Rightarrow>
            if IsZero lastDate \<or> After date lastDate then Some (legacy_row tp date r)
            else None)
       df"

definition stale :: "parser \<Rightarrow> Time \<Rightarrow> ForexData list \<Rightarrow> ForexData list" where
  "stale tp lastDate data =
     filter (\<lambda>d.
        case tp layoutISO (Fecha d) of
          None \<Rightarrow> False
        | Some fecha \<Rightarrow> \<not> IsZero lastDate \<and> \<not> After fecha lastDate)
       data"

definition parsed_details :: "parser \<Rightarrow> ForexDetail list \<Rightarrow> dbrow list" where
  "parsed_details tp ds =
     List.map_filter (\<lambda>d. map_option (\<lambda>fecha. detail_row tp fecha d) (tp layoutISO (Fecha' d))) ds"

text \<open>The sync in the words of its contract: the copy of a source row, and the
  source rows dated after a cutoff in ascending order of date.\<close>

definition copy_of :: "dbrow \<Rightarrow> dbrow" where
  "copy_of r = map (\<lambda>c. (c, col r c)) sync_select_cols"

definition well_typed :: "dbrow \<Rightarrow> bool" where
  "well_typed r = list_all2 fits (map snd scan_dests) (map (col r) sync_select_cols)"

subsection \<open>Inputs for the examples\<close>

definition all_ok :: "nat \<Rightarrow> bool" where
  "all_ok k = True"

definition quote :: "string \<Rightarrow> string \<Rightarrow> string \<Rightarrow> ForexData" where
  "quote fecha plazo liquidacion =
     \<lparr>Fecha = fecha, Ticker = ''USB$T'', Descripcion = ''DOLAR USA BILLETE'',
      TipoEmision = ''FX'', Segmento = ''Mayorista'', CodigoSegmento = ''M'',
      Plazo = plazo, CodigoPlazo = ''0'', Moneda = ''T'', FechaLiquidacion = liquidacion,
      VolumenAcumulado = 1500, MontoAcumulado = 0, PrecioUltimo = 0, UltimaTasa = 0,
      PrecioCierreAnterior = 0, PrecioMinimo = 0, PrecioMaximo = 0, OpenInterest = 0,
      PrecioCierre = 0, Variacion = 0\<rparr>"

definition detail :: "string \<Rightarrow> string \<Rightarrow> string \<Rightarrow> ForexDetail" where
  "detail fecha plazo liquidacion =
     \<lparr>Fecha' = fecha, Ticker' = ''USB$T'', Descripcion' = ''DOLAR USA BILLETE'',
      Moneda' = ''T'', Plazo' = plazo, CodigoPlazo' = ''0'', Segmento' = ''Minorista'',
      CodigoSegmento' = ''m'', Volumen' = 0, Monto' = 0, Minimo' = 0, Maximo' = 0,
      Ultimo' = 0, Variacion' = 0, TipoEmision' = ''FX'', PrecioCierre' = 0,
      FechaLiquidacion' = liquidacion, UltimaTasa' = 0, CierreAnterior' = 0,
      OpenInterest' = 0\<rparr>"

definition day_of :: "ForexDetail list \<Rightarrow> HistoricoResponse" where
  "day_of ds = \<lparr>DayFecha = ''2024-11-15T00:00:00'', DayVolumen = 0, Details = ds\<rparr>"

definition frame_row :: "string \<Rightarrow> string \<Rightarrow> string \<Rightarrow> dfrow" where
  "frame_row date sett settDate =
     \<lparr>date_col = date, rueda_col = Some ''CAM1'',
      instrumento_col = Some ''USD / ART 000 241115'',
      currency_out_col = Some ''USD'', currency_in_col = Some ''ART'',
      settle_col = Some sett, settle_date_col = Some settDate,
      monto_col = Some 0, cotizacion_col = Some 0, hora_col = Some ''10:00:00''\<rparr>"

definition db_env :: "Time option option \<Rightarrow> env" where
  "db_env q = \<lparr>connect_ok = True, max_date = q, prepare_ok = True, exec_ok = all_ok\<rparr>"

definition sync_env :: "Time option option \<Rightarrow> dbrow list \<Rightarrow> senv" where
  "sync_env q src =
     \<lparr>local_ok = True, cloud_ok = True, cloud_max = q, local_rows = Some src,
      cloud_prepare_ok = True, scan_ok = all_ok, cloud_exec_ok = all_ok\<rparr>"

definition cloud_down :: senv where
  "cloud_down =
     \<lparr>local_ok = True, cloud_ok = False, cloud_max = Some None, local_rows = Some [],
      cloud_prepare_ok = True, scan_ok = all_ok, cloud_exec_ok = all_ok\<rparr>"

definition stored_row :: "Time \<Rightarrow> dbrow" where
  "stored_row t =
     [(''id'', Integer 7), (''date'', Timestamp t), (''rueda'', Text ''CAM1''),
      (''instrumento'', Text ''USB / ART 000''), (''currency_out'', Text ''USB''),
      (''currency_in'', Text ''ART''), (''settle'', Integer 0), (''settle_date'', Null),
      (''monto'', Float 0), (''cotizacion'', Float 0), (''hora'', Null),
      (''descripcion'', Text ''DOLAR USA BILLETE''), (''tipo_emision'', Text ''FX''),
      (''codigo_segmento'', Text ''M''), (''codigo_plazo'', Text ''0''), (''moneda'', Text ''T''),
      (''monto_acumulado'', Float 0), (''precio_ultimo'', Float 0), (''ultima_tasa'', Float 0),
      (''precio_cierre_anterior'', Float 0), (''precio_minimo'', Float 0),
      (''precio_maximo'', Float 0), (''open_interest'', Integer 0), (''variacion'', Float 0)]"

definition answer :: "'a \<Rightarrow> Time \<Rightarrow> Time \<Rightarrow> 'a" where
  "answer r desde hasta = r"

definition history_env :: "Time option option \<Rightarrow> Time \<Rightarrow> HistoricoResponse list option \<Rightarrow> henv" where
  "history_env q clock r =
     \<lparr>connect_ok = True, max_date = q, prepare_ok = True, exec_ok = all_ok,
      now = clock, fetch = answer r\<rparr>"

section \<open>Properties\<close>

subsection \<open>The loops\<close>

lemma Exec_eq:
  "Exec ok c cols args =
     (\<lparr>execs = execs c @ [zip cols args],
       stored = stored c @ (if ok (length (execs c)) then [zip cols args] else [])\<rparr>,
      ok (length (execs c)))"
  by (simp add: Exec_def Let_def)

lemma accepted_append:
  "accepted ok k (xs @ ys) = accepted ok k xs @ accepted ok (k + length xs) ys"
  by (induction xs arbitrary: k) auto

lemma accepted_all: "(\<And>i. ok i) \<Longrightarrow> accepted ok k rs = rs"
  by (induction rs arbitrary: k) auto

lemma accepted_subset: "set (accepted ok k rs) \<subseteq> set rs"
  by (induction rs arbitrary: k) auto

lemma saveLoop_result:
  "saveLoop tp ok lastDate data (c, n, k) =
     (\<lparr>execs = execs c @ submitted tp lastDate data,
       stored = stored c @ accepted ok (length (execs c)) (submitted tp lastDate data)\<rparr>,
      n + length (accepted ok (length (execs c)) (submitted tp lastDate data)),
      k + length (stale tp lastDate data))"
proof (induction data arbitrary: c n k)
  case Nil
  show ?case by (simp add: submitted_def stale_def List.map_filter_simps)
next
  case (Cons d ds)
  show ?case
  proof (cases "tp layoutISO (Fecha d)")
    case None
    then show ?thesis using Cons.IH [of c n k]
      by (simp add: submitted_def stale_def List.map_filter_simps)
  next
    case (Some fecha)
    show ?thesis
    proof (cases "\<not> IsZero lastDate \<and> \<not> After fecha lastDate")
      case True
      then show ?thesis using Some Cons.IH [of c n "k + 1"]
        by (simp add: submitted_def stale_def List.map_filter_simps)
    next
      case False
      then show ?thesis using Some
        by (cases "ok (length (execs c))")
           (simp_all add: Exec_eq Cons.IH submitted_def stale_def List.map_filter_simps quote_row_def)
    qed
  qed
qed

lemma insertDetails_result:
  "insertDetails tp ok ds (c, n) =
     (\<lparr>execs = execs c @ parsed_details tp ds,
       stored = stored c @ accepted ok (length (execs c)) (parsed_details tp ds)\<rparr>,
      n + length (accepted ok (length (execs c)) (parsed_details tp ds)))"
proof (induction ds arbitrary: c n)
  case Nil
  show ?case by (simp add: parsed_details_def List.map_filter_simps)
next
  case (Cons d ds)
  show ?case
  proof (cases "tp layoutISO (Fecha' d)")
    case None
    then show ?thesis using Cons.IH [of c n]
      by (simp add: parsed_details_def List.map_filter_simps)
  next
    case (Some fecha)
    then show ?thesis
      by (cases "ok (length (execs c))")
         (simp_all add: Exec_eq Cons.IH parsed_details_def List.map_filter_simps detail_row_def)
  qed
qed

lemma parsed_details_append:
  "parsed_details tp (xs @ ys) = parsed_details tp xs @ parsed_details tp ys"
  by (simp add: parsed_details_def List.map_filter_def)

lemma insertDays_result:
  "insertDays tp ok days (c, n) =
     (\<lparr>execs = execs c @ parsed_details tp (concat (map Details days)),
       stored = stored c
         @ accepted ok (length (execs c)) (parsed_details tp (concat (map Details days)))\<rparr>,
      n + length (accepted ok (length (execs c))
                   (parsed_details tp (concat (map Details days)))))"
proof (induction days arbitrary: c n)
  case Nil
  show ?case by (simp add: parsed_details_def List.map_filter_simps)
next
  case (Cons day days)
  show ?case
    by (simp add: insertDetails_result Cons.IH parsed_details_append accepted_append)
qed

lemma execRows_result:
  "execRows ok rows (c, n) =
     (\<lparr>execs = execs c @ map (zip legacy_cols) rows,
       stored = stored c @ accepted ok (length (execs c)) (map (zip legacy_cols) rows)\<rparr>,
      n + length (accepted ok (length (execs c)) (map (zip legacy_cols) rows)))"
proof (induction rows arbitrary: c n)
  case Nil
  show ?case by simp
next
  case (Cons row rows)
  show ?case
    by (cases "ok (length (execs c))") (simp_all add: Exec_eq Cons.IH)
qed

subsection \<open>Strings\<close>

lemma HasSuffix_iff_suffix: "HasSuffix s sfx \<longleftrightarrow> suffix sfx s"
  by (auto simp: HasSuffix_def suffix_def)
     (metis append_take_drop_id)

lemma TrimSuffix_append: "TrimSuffix (t @ sfx) sfx = t"
  by (simp add: TrimSuffix_def HasSuffix_def)

text \<open>
  Claim C7. For every ticker \<open>T\<close>, \<open>deriveCurrencyOut\<close> of \<open>T\<close> followed by
  \<open>$T\<close> is \<open>T\<close>, and \<open>deriveCurrencyOut T\<close> is \<open>T\<close> whenever \<open>T\<close> does not
  end in \<open>$T\<close>.
\<close>

theorem currency_out_suffix:
  "deriveCurrencyOut (T @ ''$T'') = T \<and> (\<not> suffix ''$T'' T \<longrightarrow> deriveCurrencyOut T = T)"
  by (simp add: deriveCurrencyOut_def TrimSuffix_append)
     (simp add: TrimSuffix_def HasSuffix_iff_suffix)

theorem currency_out_suffix_witness:
  "deriveCurrencyOut (''USB'' @ ''$T'') = ''USB'' \<and> \<not> suffix ''$T'' ''USMEP''
   \<and> deriveCurrencyOut ''USMEP'' = ''USMEP''"
proof -
  have h: "\<not> suffix ''$T'' ''USMEP''"
    by (simp add: suffix_to_prefix)
  show ?thesis
    using currency_out_suffix [of "''USB''"] currency_out_suffix [of "''USMEP''"] h
    by blast
qed

subsection \<open>Runs and rows\<close>


lemma saveToDatabase_run:
  assumes "connect_ok e" and "prepare_ok e"
  shows "db (saveToDatabase tp e data) =
           \<lparr>execs = submitted tp (scanLastDate (max_date e)) data,
            stored = accepted (exec_ok e) 0 (submitted tp (scanLastDate (max_date e)) data)\<rparr>"
    and "rows_inserted (saveToDatabase tp e data) =
           length (accepted (exec_ok e) 0 (submitted tp (scanLastDate (max_date e)) data))"
    and "rows_skipped (saveToDatabase tp e data) =
           length (stale tp (scanLastDate (max_date e)) data)"
  using assms
  by (simp_all add: saveToDatabase_def saveLoop_result fresh_def Let_def submitted_def
        stale_def List.map_filter_simps)

lemma saveLoop_drop:
  assumes "tp layoutISO (Fecha d) = None"
  shows "saveLoop tp ok lastDate (xs @ d # ys) st = saveLoop tp ok lastDate (xs @ ys) st"
proof -
  obtain c n k where st: "st = (c, n, k)" by (cases st) auto
  have "submitted tp lastDate (xs @ d # ys) = submitted tp lastDate (xs @ ys)"
    using assms by (simp add: submitted_def List.map_filter_def)
  moreover have "stale tp lastDate (xs @ d # ys) = stale tp lastDate (xs @ ys)"
    using assms by (simp add: stale_def)
  ultimately show ?thesis by (simp add: st saveLoop_result)
qed

lemma insertDetails_drop:
  assumes "tp layoutISO (Fecha' d) = None"
  shows "insertDetails tp ok (xs @ d # ys) st = insertDetails tp ok (xs @ ys) st"
proof -
  obtain c n where st: "st = (c, n)" by (cases st) auto
  have "parsed_details tp (xs @ d # ys) = parsed_details tp (xs @ ys)"
    using assms by (simp add: parsed_details_def List.map_filter_def)
  then show ?thesis by (simp add: st insertDetails_result)
qed

lemma saveToDatabase_drop:
  assumes "tp layoutISO (Fecha d) = None"
  shows "db (saveToDatabase tp e (xs @ d # ys)) = db (saveToDatabase tp e (xs @ ys))
       \<and> rows_inserted (saveToDatabase tp e (xs @ d # ys)) = rows_inserted (saveToDatabase tp e (xs @ ys))
       \<and> rows_skipped (saveToDatabase tp e (xs @ d # ys)) = rows_skipped (saveToDatabase tp e (xs @ ys))"
proof (cases "xs @ ys = []")
  case True
  then show ?thesis using assms
    by (simp add: saveToDatabase_def Let_def fresh_def)
next
  case False
  then show ?thesis using assms
    by (simp add: saveToDatabase_def Let_def saveLoop_drop [where tp = tp and d = d])
qed

lemma parsed_details_drop:
  "tp layoutISO (Fecha' d) = None \<Longrightarrow>
   parsed_details tp (xs @ d # ys) = parsed_details tp (xs @ ys)"
  by (simp add: parsed_details_def List.map_filter_def)

lemma insertData_drop:
  assumes "tp layoutISO (Fecha' d) = None"
  shows "insertData tp e (pre @ day\<lparr>Details := xs @ d # ys\<rparr> # post)
       = insertData tp e (pre @ day\<lparr>Details := xs @ ys\<rparr> # post)"
proof -
  have skip: "parsed_details tp (d # zs) = parsed_details tp zs" for zs
    using assms by (simp add: parsed_details_def List.map_filter_simps)
  have "parsed_details tp (concat (map Details (pre @ day\<lparr>Details := xs @ d # ys\<rparr> # post)))
      = parsed_details tp (concat (map Details (pre @ day\<lparr>Details := xs @ ys\<rparr> # post)))"
    by (simp add: parsed_details_append skip)
  then show ?thesis
    by (simp only: insertData_def insertDays_result)
qed

lemma quote_row_cols:
  "col (quote_row tp fecha d) ''date'' = Timestamp fecha"
  "col (quote_row tp fecha d) ''instrumento'' =
     Text (buildInstrumento (deriveCurrencyOut (Ticker d)) (deriveCurrencyIn (Moneda d)) (Plazo d))"
  "col (quote_row tp fecha d) ''currency_out'' = Text (deriveCurrencyOut (Ticker d))"
  "col (quote_row tp fecha d) ''currency_in'' = Text (deriveCurrencyIn (Moneda d))"
  "col (quote_row tp fecha d) ''settle'' = intPtr (settleOf (Plazo d))"
  "col (quote_row tp fecha d) ''settle_date'' = timePtr (settleDateOf tp (FechaLiquidacion d))"
  by (simp_all add: quote_row_def forex_cols_def forex_args_def col_def Let_def)

lemma detail_row_cols:
  "col (detail_row tp fecha d) ''date'' = Timestamp fecha"
  "col (detail_row tp fecha d) ''instrumento'' =
     Text (buildInstrumento (deriveCurrencyOut (Ticker' d)) (deriveCurrencyIn (Moneda' d)) (Plazo' d))"
  "col (detail_row tp fecha d) ''currency_out'' = Text (deriveCurrencyOut (Ticker' d))"
  "col (detail_row tp fecha d) ''currency_in'' = Text (deriveCurrencyIn (Moneda' d))"
  "col (detail_row tp fecha d) ''settle'' = intPtr (settleOf (Plazo' d))"
  "col (detail_row tp fecha d) ''settle_date'' = timePtr (settleDateOf tp (FechaLiquidacion' d))"
  by (simp_all add: detail_row_def historico_cols_def historico_args_def col_def Let_def)

lemma parse_examples:
  "time_Parse layoutISO ''2024-11-10T00:00:00'' = Some (Date 2024 11 10 0 0 0)"
  "time_Parse layoutISO ''2024-11-14T00:00:00'' = Some (Date 2024 11 14 0 0 0)"
  "time_Parse layoutISO ''2024-11-15T00:00:00'' = Some (Date 2024 11 15 0 0 0)"
  "time_Parse layoutISO ''2024-11-16T00:00:00'' = Some (Date 2024 11 16 0 0 0)"
  "time_Parse layoutISO ''0001-01-01T00:00:00'' = Some 0"
  "time_Parse layoutISO ''15/11/2024'' = None"
  "time_Parse layoutISO ''2024-13-45T00:00:00'' = None"
  "time_Parse ''2006-01-02'' ''2024-11-14'' = Some (Date 2024 11 14 0 0 0)"
  "time_Parse ''2006-01-02'' ''2024-11-15'' = Some (Date 2024 11 15 0 0 0)"
  "time_Parse ''2006-01-02'' [] = None"
  "time_Parse ''060102'' ''241115'' = Some (Date 2024 11 15 0 0 0)"
  "time_Parse ''060102'' ''241345'' = None"
  by code_simp+

lemma date_values:
  "Date 2024 11 10 0 0 0 = 63866793600000000000"
  "Date 2024 11 11 0 0 0 = 63866880000000000000"
  "Date 2024 11 13 0 0 0 = 63867052800000000000"
  "Date 2024 11 14 0 0 0 = 63867139200000000000"
  "Date 2024 11 15 0 0 0 = 63867225600000000000"
  "Date 2024 11 16 0 0 0 = 63867312000000000000"
  "Date 1900 1 1 0 0 0 = 59926608000000000000"
  "Date 1900 1 2 0 0 0 = 59926694400000000000"
  by code_simp+

lemma atoi_examples:
  "Atoi ''000'' = Some 0"
  "Atoi ''CI'' = None"
  "Atoi ''99999999999999999999'' = None"
  by code_simp+

text \<open>
  Claim C4. A record whose required date fails to parse is dropped: the loops of the
  current-quotes job and of the history job, and the runs built on them, end as they
  do on the batch without the record, so the record is not inserted, no counter moves
  for it, no error is raised and the records after it are processed.
\<close>

theorem unparseable_date_dropped:
  "(tp layoutISO (Fecha d) = None \<longrightarrow>
      saveLoop tp ok lastDate (xs @ d # ys) st = saveLoop tp ok lastDate (xs @ ys) st
    \<and> db (saveToDatabase tp e (xs @ d # ys)) = db (saveToDatabase tp e (xs @ ys))
    \<and> rows_inserted (saveToDatabase tp e (xs @ d # ys))
        = rows_inserted (saveToDatabase tp e (xs @ ys))
    \<and> rows_skipped (saveToDatabase tp e (xs @ d # ys))
        = rows_skipped (saveToDatabase tp e (xs @ ys)))
   \<and> (tp layoutISO (Fecha' d') = None \<longrightarrow>
      insertDetails tp ok (xs' @ d' # ys') st' = insertDetails tp ok (xs' @ ys') st'
    \<and> insertData tp e (pre @ day\<lparr>Details := xs' @ d' # ys'\<rparr> # post)
        = insertData tp e (pre @ day\<lparr>Details := xs' @ ys'\<rparr> # post))"
proof (intro conjI impI)
  assume h: "tp layoutISO (Fecha d) = None"
  show "saveLoop tp ok lastDate (xs @ d # ys) st = saveLoop tp ok lastDate (xs @ ys) st"
    using h by (rule saveLoop_drop)
  show "db (saveToDatabase tp e (xs @ d # ys)) = db (saveToDatabase tp e (xs @ ys))"
    and "rows_inserted (saveToDatabase tp e (xs @ d # ys))
        = rows_inserted (saveToDatabase tp e (xs @ ys))"
    and "rows_skipped (saveToDatabase tp e (xs @ d # ys))
        = rows_skipped (saveToDatabase tp e (xs @ ys))"
    using saveToDatabase_drop [where tp = tp and d = d and e = e and xs = xs and ys = ys] h
    by simp_all
next
  assume h: "tp layoutISO (Fecha' d') = None"
  show "insertDetails tp ok (xs' @ d' # ys') st' = insertDetails tp ok (xs' @ ys') st'"
    using h by (rule insertDetails_drop)
  show "insertData tp e (pre @ day\<lparr>Details := xs' @ d' # ys'\<rparr> # post)
        = insertData tp e (pre @ day\<lparr>Details := xs' @ ys'\<rparr> # post)"
    using h by (rule insertData_drop)
qed

lemma run_two_quotes:
  "rows_inserted (saveToDatabase time_Parse (db_env (Some None))
      [quote ''2024-11-15T00:00:00'' ''000'' [], quote ''2024-11-16T00:00:00'' ''000'' []]) = 2"
  by (simp add: saveToDatabase_run db_env_def submitted_def List.map_filter_simps quote_def
        parse_examples scanLastDate_def IsZero_def all_ok_def)

lemma run_two_details:
  "snd (insertData time_Parse (db_env (Some None))
      [day_of [detail ''2024-11-15T00:00:00'' ''000'' [],
               detail ''2024-11-16T00:00:00'' ''000'' []]]) = 2"
  by (simp add: insertData_def insertDays_result db_env_def parsed_details_def
        List.map_filter_simps detail_def day_of_def parse_examples all_ok_def fresh_def)

theorem unparseable_date_dropped_witness:
  "time_Parse layoutISO (Fecha (quote ''15/11/2024'' ''000'' [])) = None
   \<and> rows_inserted (saveToDatabase time_Parse (db_env (Some None))
        [quote ''2024-11-15T00:00:00'' ''000'' [], quote ''15/11/2024'' ''000'' [],
         quote ''2024-11-16T00:00:00'' ''000'' []]) = 2
   \<and> time_Parse layoutISO (Fecha' (detail ''15/11/2024'' ''000'' [])) = None
   \<and> snd (insertData time_Parse (db_env (Some None))
        [day_of [detail ''2024-11-15T00:00:00'' ''000'' [], detail ''15/11/2024'' ''000'' [],
                 detail ''2024-11-16T00:00:00'' ''000'' []]]) = 2"
proof -
  have q: "time_Parse layoutISO (Fecha (quote ''15/11/2024'' ''000'' [])) = None"
    by (simp add: quote_def parse_examples)
  have d: "time_Parse layoutISO (Fecha' (detail ''15/11/2024'' ''000'' [])) = None"
    by (simp add: detail_def parse_examples)
  note th = unparseable_date_dropped
    [where tp = time_Parse and d = "quote ''15/11/2024'' ''000'' []"
       and xs = "[quote ''2024-11-15T00:00:00'' ''000'' []]"
       and ys = "[quote ''2024-11-16T00:00:00'' ''000'' []]"
       and e = "db_env (Some None)"
       and d' = "detail ''15/11/2024'' ''000'' []"
       and xs' = "[detail ''2024-11-15T00:00:00'' ''000'' []]"
       and ys' = "[detail ''2024-11-16T00:00:00'' ''000'' []]"
       and pre = "[]" and post = "[]"
       and day = "day_of []"]
  have "rows_inserted (saveToDatabase time_Parse (db_env (Some None))
        [quote ''2024-11-15T00:00:00'' ''000'' [], quote ''15/11/2024'' ''000'' [],
         quote ''2024-11-16T00:00:00'' ''000'' []]) = 2"
    using th q run_two_quotes by simp
  moreover have "snd (insertData time_Parse (db_env (Some None))
        [day_of [detail ''2024-11-15T00:00:00'' ''000'' [], detail ''15/11/2024'' ''000'' [],
                 detail ''2024-11-16T00:00:00'' ''000'' []]]) = 2"
    using th d run_two_details by (simp add: day_of_def)
  ultimately show ?thesis using q d by simp
qed

text \<open>
  Claim C8. In both jobs that derive it, the \<open>instrumento\<close> column is
  \<open>currency_out\<close>, \<open>" / "\<close>, \<open>currency_in\<close>, a space and the raw term string of
  the record, while the \<open>settle\<close> column holds the number parsed from the same term.
\<close>

theorem instrumento_raw_term:
  "col (quote_row tp fecha d) ''instrumento''
     = Text (deriveCurrencyOut (Ticker d) @ '' / '' @ deriveCurrencyIn (Moneda d) @ '' '' @ Plazo d)
   \<and> col (quote_row tp fecha d) ''currency_out'' = Text (deriveCurrencyOut (Ticker d))
   \<and> col (quote_row tp fecha d) ''currency_in'' = Text (deriveCurrencyIn (Moneda d))
   \<and> col (quote_row tp fecha d) ''settle'' = intPtr (settleOf (Plazo d))
   \<and> col (detail_row tp fecha d') ''instrumento''
     = Text (deriveCurrencyOut (Ticker' d') @ '' / '' @ deriveCurrencyIn (Moneda' d') @ '' ''
             @ Plazo' d')
   \<and> col (detail_row tp fecha d') ''currency_out'' = Text (deriveCurrencyOut (Ticker' d'))
   \<and> col (detail_row tp fecha d') ''currency_in'' = Text (deriveCurrencyIn (Moneda' d'))
   \<and> col (detail_row tp fecha d') ''settle'' = intPtr (settleOf (Plazo' d'))"
  by (simp add: quote_row_cols detail_row_cols buildInstrumento_def)

theorem instrumento_raw_term_witness:
  "col (quote_row time_Parse 0 (quote ''2024-11-15T00:00:00'' ''000'' [])) ''instrumento''
     = Text ''USB / ART 000''
   \<and> col (quote_row time_Parse 0 (quote ''2024-11-15T00:00:00'' ''000'' [])) ''settle''
     = Integer 0
   \<and> col (detail_row time_Parse 0 (detail ''2024-11-15T00:00:00'' ''000'' [])) ''instrumento''
     = Text ''USB / ART 000''
   \<and> col (detail_row time_Parse 0 (detail ''2024-11-15T00:00:00'' ''000'' [])) ''settle''
     = Integer 0"
  using instrumento_raw_term [of time_Parse 0 "quote ''2024-11-15T00:00:00'' ''000'' []"
      "detail ''2024-11-15T00:00:00'' ''000'' []"]
  by (simp add: quote_def detail_def deriveCurrencyOut_def deriveCurrencyIn_def TrimSuffix_def
        HasSuffix_def settleOf_def atoi_examples intPtr_def)


lemma map_filter_member:
  "x \<in> set xs \<Longrightarrow> f x = Some y \<Longrightarrow> y \<in> set (List.map_filter f xs)"
  by (force simp: List.map_filter_def image_iff)

lemma map_filter_memberD:
  "y \<in> set (List.map_filter f xs) \<Longrightarrow> \<exists>x \<in> set xs. f x = Some y"
  by (auto simp: List.map_filter_def)

lemma after_cutoff_passes:
  "after_cutoff cutoff fecha \<Longrightarrow>
   IsZero (scanLastDate (Some cutoff)) \<or> After fecha (scanLastDate (Some cutoff))"
  by (cases cutoff) (simp_all add: after_cutoff_def scanLastDate_def IsZero_def After_def)

lemma submitted_qualifying:
  assumes "cutoff \<noteq> Some 0"
  shows "submitted tp (scanLastDate (Some cutoff)) data = qualifying tp cutoff data"
  unfolding submitted_def qualifying_def
  by (intro arg_cong2 [where f = List.map_filter] ext refl)
     (use assms in \<open>auto simp: after_cutoff_def scanLastDate_def IsZero_def After_def
        split: option.splits\<close>)

lemma submitted_zero: "submitted tp 0 data = qualifying tp None data"
  unfolding submitted_def qualifying_def
  by (intro arg_cong2 [where f = List.map_filter] ext refl)
     (auto simp: after_cutoff_def IsZero_def split: option.splits)

lemma submitted_member:
  assumes "d \<in> set data" and "tp layoutISO (Fecha d) = Some fecha"
    and "IsZero lastDate \<or> After fecha lastDate"
  shows "quote_row tp fecha d \<in> set (submitted tp lastDate data)"
  unfolding submitted_def
  by (rule map_filter_member [OF assms(1)]) (use assms in auto)

lemma parsed_details_member:
  assumes "d \<in> set ds" and "tp layoutISO (Fecha' d) = Some fecha"
  shows "detail_row tp fecha d \<in> set (parsed_details tp ds)"
  unfolding parsed_details_def
  by (rule map_filter_member [OF assms(1)]) (use assms in auto)

lemma insertData_run:
  assumes "prepare_ok e"
  shows "insertData tp e days =
     (\<lparr>execs = parsed_details tp (concat (map Details days)),
       stored = accepted (exec_ok e) 0 (parsed_details tp (concat (map Details days)))\<rparr>,
      length (accepted (exec_ok e) 0 (parsed_details tp (concat (map Details days)))))"
  using assms by (simp add: insertData_def insertDays_result fresh_def)

lemma totalDetails_zero: "totalDetails days = 0 \<Longrightarrow> concat (map Details days) = []"
  by (induction days) auto

lemma rowsToInsert_rows:
  "map (zip legacy_cols) (rowsToInsert tp lastDate df) = submitted_legacy tp lastDate df"
  by (induction df)
     (simp_all add: submitted_legacy_def List.map_filter_simps legacy_row_def
        split: option.splits)

lemma saveToDatabase_legacy_run:
  assumes "connect_ok e" and "prepare_ok e"
  shows "db (saveToDatabase_legacy tp e df) =
           \<lparr>execs = submitted_legacy tp (scanLastDate (max_date e)) df,
            stored = accepted (exec_ok e) 0
                       (submitted_legacy tp (scanLastDate (max_date e)) df)\<rparr>"
    and "rows_inserted (saveToDatabase_legacy tp e df) =
           length (accepted (exec_ok e) 0
                     (submitted_legacy tp (scanLastDate (max_date e)) df))"
proof -
  let ?rows = "rowsToInsert tp (scanLastDate (max_date e)) df"
  have r: "submitted_legacy tp (scanLastDate (max_date e)) df = map (zip legacy_cols) ?rows"
    by (simp add: rowsToInsert_rows)
  have e: "df = [] \<Longrightarrow> ?rows = []"
    by simp
  show "db (saveToDatabase_legacy tp e df) =
           \<lparr>execs = submitted_legacy tp (scanLastDate (max_date e)) df,
            stored = accepted (exec_ok e) 0
                       (submitted_legacy tp (scanLastDate (max_date e)) df)\<rparr>"
    unfolding r using assms e
    by (cases "?rows = []")
       (auto simp: saveToDatabase_legacy_def Let_def execRows_result fresh_def)
  show "rows_inserted (saveToDatabase_legacy tp e df) =
           length (accepted (exec_ok e) 0
                     (submitted_legacy tp (scanLastDate (max_date e)) df))"
    unfolding r using assms e
    by (cases "?rows = []")
       (auto simp: saveToDatabase_legacy_def Let_def execRows_result fresh_def)
qed

lemma submitted_legacy_qualifying:
  assumes "cutoff \<noteq> Some 0"
  shows "submitted_legacy tp (scanLastDate (Some cutoff)) df = qualifying_legacy tp cutoff df"
  unfolding submitted_legacy_def qualifying_legacy_def
  by (intro arg_cong2 [where f = List.map_filter] ext refl)
     (use assms in \<open>auto simp: after_cutoff_def scanLastDate_def IsZero_def After_def
        split: option.splits\<close>)

lemma submitted_legacy_zero: "submitted_legacy tp 0 df = qualifying_legacy tp None df"
  unfolding submitted_legacy_def qualifying_legacy_def
  by (intro arg_cong2 [where f = List.map_filter] ext refl)
     (auto simp: after_cutoff_def IsZero_def split: option.splits)

lemma submitted_legacy_member:
  assumes "r \<in> set df" and "tp ''2006-01-02'' (date_col r) = Some date"
    and "IsZero lastDate \<or> After date lastDate"
  shows "legacy_row tp date r \<in> set (submitted_legacy tp lastDate df)"
  unfolding submitted_legacy_def
  by (rule map_filter_member [OF assms(1)]) (use assms in auto)

lemma legacy_row_cols:
  "col (legacy_row tp date r) ''date'' = Timestamp date"
  "col (legacy_row tp date r) ''rueda'' = strVal (rueda_col r)"
  "col (legacy_row tp date r) ''instrumento'' = strVal (instrumento_col r)"
  "col (legacy_row tp date r) ''currency_out'' = strVal (currency_out_col r)"
  "col (legacy_row tp date r) ''currency_in'' = strVal (currency_in_col r)"
  "col (legacy_row tp date r) ''settle'' = intPtr (legacy_settle (settle_col r))"
  "col (legacy_row tp date r) ''settle_date'' = timePtr (legacy_settle_date tp (settle_date_col r))"
  "col (legacy_row tp date r) ''monto'' = floatVal (monto_col r)"
  "col (legacy_row tp date r) ''cotizacion'' = floatVal (cotizacion_col r)"
  "col (legacy_row tp date r) ''hora'' = strVal (hora_col r)"
  by (simp_all add: legacy_row_def legacy_cols_def legacy_args_def col_def Let_def)

lemma qualifying_dates:
  assumes "row \<in> set (qualifying tp cutoff data)"
  shows "\<exists>t. col row ''date'' = Timestamp t \<and> after_cutoff cutoff t"
proof -
  from map_filter_memberD [OF assms [unfolded qualifying_def]]
  obtain d where "(case tp layoutISO (Fecha d) of None \<Rightarrow> None
      | Some fecha \<Rightarrow> if after_cutoff cutoff fecha then Some (quote_row tp fecha d) else None)
      = Some row"
    by blast
  then show ?thesis
    by (auto simp: quote_row_cols split: option.splits if_splits)
qed

lemma qualifying_legacy_dates:
  assumes "row \<in> set (qualifying_legacy tp cutoff df)"
  shows "\<exists>t. col row ''date'' = Timestamp t \<and> after_cutoff cutoff t"
proof -
  from map_filter_memberD [OF assms [unfolded qualifying_legacy_def]]
  obtain r where "(case tp ''2006-01-02'' (date_col r) of None \<Rightarrow> None
      | Some date \<Rightarrow> if after_cutoff cutoff date then Some (legacy_row tp date r) else None)
      = Some row"
    by blast
  then show ?thesis
    by (auto simp: legacy_row_cols split: option.splits if_splits)
qed

text \<open>
  Claim C3. A record whose settlement date is the sentinel \<open>0001-01-01T00:00:00\<close> is
  not an error: when its own date parses and passes the cutoff (the history job has
  no cutoff), its row is passed to \<open>Exec\<close> with a NULL \<open>settle_date\<close>, and it is
  stored when the database accepts every row.
\<close>

theorem sentinel_settle_date:
  "(connect_ok e \<and> prepare_ok e \<and> max_date e = Some cutoff \<and> d \<in> set data
      \<and> FechaLiquidacion d = ''0001-01-01T00:00:00''
      \<and> tp layoutISO (Fecha d) = Some fecha \<and> after_cutoff cutoff fecha
    \<longrightarrow> quote_row tp fecha d \<in> set (execs (db (saveToDatabase tp e data)))
      \<and> col (quote_row tp fecha d) ''settle_date'' = Null
      \<and> ((\<forall>k. exec_ok e k)
           \<longrightarrow> quote_row tp fecha d \<in> set (stored (db (saveToDatabase tp e data)))))
   \<and> (prepare_ok e' \<and> day \<in> set days \<and> d' \<in> set (Details day)
      \<and> FechaLiquidacion' d' = ''0001-01-01T00:00:00''
      \<and> tp layoutISO (Fecha' d') = Some fecha'
    \<longrightarrow> detail_row tp fecha' d' \<in> set (execs (fst (insertData tp e' days)))
      \<and> col (detail_row tp fecha' d') ''settle_date'' = Null
      \<and> ((\<forall>k. exec_ok e' k)
           \<longrightarrow> detail_row tp fecha' d' \<in> set (stored (fst (insertData tp e' days)))))"
proof (intro conjI impI; (elim conjE)?)
  assume h: "connect_ok e" "prepare_ok e" "max_date e = Some cutoff" "d \<in> set data"
    "FechaLiquidacion d = ''0001-01-01T00:00:00''" "tp layoutISO (Fecha d) = Some fecha"
    "after_cutoff cutoff fecha"
  have m: "quote_row tp fecha d \<in> set (submitted tp (scanLastDate (max_date e)) data)"
    using h after_cutoff_passes [of cutoff fecha] by (simp add: submitted_member)
  show "quote_row tp fecha d \<in> set (execs (db (saveToDatabase tp e data)))"
    using m h by (simp add: saveToDatabase_run)
  show "col (quote_row tp fecha d) ''settle_date'' = Null"
    using h by (simp add: quote_row_cols settleDateOf_def timePtr_def)
  show "quote_row tp fecha d \<in> set (stored (db (saveToDatabase tp e data)))"
    if "\<forall>k. exec_ok e k"
    using m h that by (simp add: saveToDatabase_run accepted_all)
next
  assume h: "prepare_ok e'" "day \<in> set days" "d' \<in> set (Details day)"
    "FechaLiquidacion' d' = ''0001-01-01T00:00:00''" "tp layoutISO (Fecha' d') = Some fecha'"
  have "d' \<in> set (concat (map Details days))"
    using h by auto
  then have m: "detail_row tp fecha' d' \<in> set (parsed_details tp (concat (map Details days)))"
    using h by (simp add: parsed_details_member)
  show "detail_row tp fecha' d' \<in> set (execs (fst (insertData tp e' days)))"
    using m h by (simp add: insertData_run)
  show "col (detail_row tp fecha' d') ''settle_date'' = Null"
    using h by (simp add: detail_row_cols settleDateOf_def timePtr_def)
  show "detail_row tp fecha' d' \<in> set (stored (fst (insertData tp e' days)))"
    if "\<forall>k. exec_ok e' k"
    using m h that by (simp add: insertData_run accepted_all)
qed


theorem sentinel_settle_date_witness:
  "quote_row time_Parse (Date 2024 11 15 0 0 0)
      (quote ''2024-11-15T00:00:00'' ''000'' ''0001-01-01T00:00:00'')
     \<in> set (stored (db (saveToDatabase time_Parse (db_env (Some (Some (Date 2024 11 14 0 0 0))))
           [quote ''2024-11-15T00:00:00'' ''000'' ''0001-01-01T00:00:00''])))
   \<and> col (quote_row time_Parse (Date 2024 11 15 0 0 0)
        (quote ''2024-11-15T00:00:00'' ''000'' ''0001-01-01T00:00:00'')) ''settle_date'' = Null
   \<and> detail_row time_Parse (Date 2024 11 15 0 0 0)
      (detail ''2024-11-15T00:00:00'' ''000'' ''0001-01-01T00:00:00'')
     \<in> set (stored (fst (insertData time_Parse (db_env (Some None))
           [day_of [detail ''2024-11-15T00:00:00'' ''000'' ''0001-01-01T00:00:00'']])))
   \<and> col (detail_row time_Parse (Date 2024 11 15 0 0 0)
        (detail ''2024-11-15T00:00:00'' ''000'' ''0001-01-01T00:00:00'')) ''settle_date'' = Null"
proof -
  let ?q = "quote ''2024-11-15T00:00:00'' ''000'' ''0001-01-01T00:00:00''"
  let ?d = "detail ''2024-11-15T00:00:00'' ''000'' ''0001-01-01T00:00:00''"
  let ?e = "db_env (Some (Some (Date 2024 11 14 0 0 0)))"
  have hq: "connect_ok ?e \<and> prepare_ok ?e
      \<and> max_date ?e = Some (Some (Date 2024 11 14 0 0 0)) \<and> ?q \<in> set [?q]
      \<and> FechaLiquidacion ?q = ''0001-01-01T00:00:00''
      \<and> time_Parse layoutISO (Fecha ?q) = Some (Date 2024 11 15 0 0 0)
      \<and> after_cutoff (Some (Date 2024 11 14 0 0 0)) (Date 2024 11 15 0 0 0)"
    by (simp add: db_env_def quote_def parse_examples after_cutoff_def date_values)
  have hd: "prepare_ok (db_env (Some None)) \<and> day_of [?d] \<in> set [day_of [?d]]
      \<and> ?d \<in> set (Details (day_of [?d]))
      \<and> FechaLiquidacion' ?d = ''0001-01-01T00:00:00''
      \<and> time_Parse layoutISO (Fecha' ?d) = Some (Date 2024 11 15 0 0 0)"
    by (simp add: db_env_def detail_def day_of_def parse_examples)
  have ok: "\<forall>k. exec_ok ?e k" "\<forall>k. exec_ok (db_env (Some None)) k"
    by (simp_all add: db_env_def all_ok_def)
  note th = sentinel_settle_date
    [where e = ?e and cutoff = "Some (Date 2024 11 14 0 0 0)" and d = ?q and data = "[?q]"
       and tp = time_Parse and fecha = "Date 2024 11 15 0 0 0"
       and e' = "db_env (Some None)" and day = "day_of [?d]" and days = "[day_of [?d]]"
       and d' = ?d and fecha' = "Date 2024 11 15 0 0 0"]
  show ?thesis
    using th hq hd ok by blast
qed


lemma main_historico_loaded:
  assumes "connect_ok h" and "prepare_ok h"
    and "fetches (main_historico tp h) = [(a, b)]" and "fetch h a b = Some data"
  shows "db (main_historico tp h) =
     \<lparr>execs = parsed_details tp (concat (map Details data)),
      stored = accepted (exec_ok h) 0 (parsed_details tp (concat (map Details data)))\<rparr>"
proof -
  let ?today = "Truncate (now h) (24 * Hour)"
  let ?last = "getLastDate (max_date h)"
  let ?desde = "if IsZero ?last then ?today else AddDate_day ?last"
  have go: "\<not> (\<not> IsZero ?last \<and> \<not> Before ?last ?today)"
    using assms(1,3) by (auto simp: main_historico_def Let_def split: if_splits)
  have ab: "(a, b) = (?desde, ?today)"
    using assms(1,3) go
    by (auto simp: main_historico_def Let_def split: option.splits if_splits prod.splits)
  then have f: "fetch h ?desde ?today = Some data"
    using assms(4) by simp
  have p: "prepare_ok (env.truncate h)" "exec_ok (env.truncate h) = exec_ok h"
    using assms(2) by (simp_all add: env.truncate_def)
  show ?thesis
  proof (cases "totalDetails data = 0")
    case True
    then show ?thesis using assms(1) go f
      by (auto simp: main_historico_def Let_def totalDetails_zero parsed_details_def
            List.map_filter_simps fresh_def)
  next
    case False
    then show ?thesis using assms(1) go f p
      by (auto simp: main_historico_def Let_def insertData_run)
  qed
qed

text \<open>
  Claim C10. In the history job every detail of the response whose date parses is
  passed to \<open>Exec\<close>, in the order of the response: \<open>insertData\<close> takes no last
  stored date and compares none, so a detail dated on or before the last stored date
  is submitted like any other.
\<close>

theorem backfill_inserts_every_parsed_detail:
  "(prepare_ok e \<longrightarrow>
      execs (fst (insertData tp e days)) = parsed_details tp (concat (map Details days))
    \<and> stored (fst (insertData tp e days))
        = accepted (exec_ok e) 0 (parsed_details tp (concat (map Details days)))
    \<and> snd (insertData tp e days) = length (stored (fst (insertData tp e days))))
   \<and> (connect_ok h \<and> prepare_ok h \<and> fetches (main_historico tp h) = [(a, b)]
        \<and> fetch h a b = Some data
      \<longrightarrow> execs (db (main_historico tp h)) = parsed_details tp (concat (map Details data)))
   \<and> (day \<in> set days \<and> d \<in> set (Details day) \<and> tp layoutISO (Fecha' d) = Some fecha
      \<longrightarrow> detail_row tp fecha d \<in> set (parsed_details tp (concat (map Details days))))"
proof (intro conjI impI; (elim conjE)?)
  assume "prepare_ok e"
  then show "execs (fst (insertData tp e days)) = parsed_details tp (concat (map Details days))"
    and "stored (fst (insertData tp e days))
        = accepted (exec_ok e) 0 (parsed_details tp (concat (map Details days)))"
    and "snd (insertData tp e days) = length (stored (fst (insertData tp e days)))"
    by (simp_all add: insertData_run)
next
  assume "connect_ok h" "prepare_ok h" "fetches (main_historico tp h) = [(a, b)]"
    "fetch h a b = Some data"
  then show "execs (db (main_historico tp h)) = parsed_details tp (concat (map Details data))"
    by (simp add: main_historico_loaded)
next
  assume h: "day \<in> set days" "d \<in> set (Details day)" "tp layoutISO (Fecha' d) = Some fecha"
  then have "d \<in> set (concat (map Details days))"
    by auto
  then show "detail_row tp fecha d \<in> set (parsed_details tp (concat (map Details days)))"
    using h by (simp add: parsed_details_member)
qed


lemma history_example:
  "fetches (main_historico time_Parse
      (history_env (Some (Some (Date 2024 11 13 0 0 0))) (Date 2024 11 16 10 30 0)
         (Some [day_of [detail ''2024-11-10T00:00:00'' ''000'' [],
                        detail ''2024-11-15T00:00:00'' ''000'' []]])))
     = [(Date 2024 11 14 0 0 0, Date 2024 11 16 0 0 0)]"
  by code_simp

theorem backfill_inserts_every_parsed_detail_witness:
  "execs (db (main_historico time_Parse
      (history_env (Some (Some (Date 2024 11 13 0 0 0))) (Date 2024 11 16 10 30 0)
         (Some [day_of [detail ''2024-11-10T00:00:00'' ''000'' [],
                        detail ''2024-11-15T00:00:00'' ''000'' []]]))))
     = [detail_row time_Parse (Date 2024 11 10 0 0 0) (detail ''2024-11-10T00:00:00'' ''000'' []),
        detail_row time_Parse (Date 2024 11 15 0 0 0) (detail ''2024-11-15T00:00:00'' ''000'' [])]
   \<and> Date 2024 11 10 0 0 0 < getLastDate (Some (Some (Date 2024 11 13 0 0 0)))"
proof -
  let ?data = "[day_of [detail ''2024-11-10T00:00:00'' ''000'' [],
                        detail ''2024-11-15T00:00:00'' ''000'' []]]"
  let ?h = "history_env (Some (Some (Date 2024 11 13 0 0 0))) (Date 2024 11 16 10 30 0)
              (Some ?data)"
  have hyp: "connect_ok ?h \<and> prepare_ok ?h
      \<and> fetches (main_historico time_Parse ?h) = [(Date 2024 11 14 0 0 0, Date 2024 11 16 0 0 0)]
      \<and> fetch ?h (Date 2024 11 14 0 0 0) (Date 2024 11 16 0 0 0) = Some ?data"
    using history_example by (simp add: history_env_def answer_def)
  have rows: "parsed_details time_Parse (concat (map Details ?data))
     = [detail_row time_Parse (Date 2024 11 10 0 0 0) (detail ''2024-11-10T00:00:00'' ''000'' []),
        detail_row time_Parse (Date 2024 11 15 0 0 0) (detail ''2024-11-15T00:00:00'' ''000'' [])]"
    by (simp add: parsed_details_def List.map_filter_simps day_of_def detail_def parse_examples)
  have old: "Date 2024 11 10 0 0 0 < getLastDate (Some (Some (Date 2024 11 13 0 0 0)))"
    by (simp add: getLastDate_def date_values)
  from backfill_inserts_every_parsed_detail
    [where h = ?h and tp = time_Parse and a = "Date 2024 11 14 0 0 0"
       and b = "Date 2024 11 16 0 0 0" and data = ?data]
  have "execs (db (main_historico time_Parse ?h))
     = parsed_details time_Parse (concat (map Details ?data))"
    using hyp by blast
  then show ?thesis
    using rows old by simp
qed


lemma quote_row_not_null:
  "\<forall>c \<in> set forex_cols - {''settle'', ''settle_date'', ''hora''}. col (quote_row tp fecha d) c \<noteq> Null"
proof -
  have "\<forall>c \<in> set forex_cols. c \<noteq> ''settle'' \<and> c \<noteq> ''settle_date'' \<and> c \<noteq> ''hora''
          \<longrightarrow> col (quote_row tp fecha d) c \<noteq> Null"
    unfolding forex_cols_def list.set ball_simps
    by (simp add: quote_row_def forex_cols_def forex_args_def col_def Let_def)
  then show ?thesis by auto
qed

text \<open>
  Claim C5. A record whose own date parses and passes the cutoff is passed to
  \<open>Exec\<close> whatever its optional fields hold. A settlement term that \<open>Atoi\<close> rejects
  gives a NULL \<open>settle\<close> and a settlement date that does not parse gives a NULL
  \<open>settle_date\<close>; each of the two columns depends on its own field only, and the
  other columns carry what they carry for any record (in the current-quotes job
  none of them but \<open>hora\<close> is NULL).
\<close>

theorem optional_field_failure:
  "(connect_ok e \<and> prepare_ok e \<and> max_date e = Some cutoff \<and> d \<in> set data
      \<and> tp layoutISO (Fecha d) = Some fecha \<and> after_cutoff cutoff fecha
    \<longrightarrow> quote_row tp fecha d \<in> set (execs (db (saveToDatabase tp e data)))
      \<and> ((\<forall>k. exec_ok e k)
           \<longrightarrow> quote_row tp fecha d \<in> set (stored (db (saveToDatabase tp e data))))
      \<and> (Atoi (Plazo d) = None \<longrightarrow> col (quote_row tp fecha d) ''settle'' = Null)
      \<and> (tp layoutISO (FechaLiquidacion d) = None
           \<longrightarrow> col (quote_row tp fecha d) ''settle_date'' = Null)
      \<and> col (quote_row tp fecha d) ''settle'' = intPtr (settleOf (Plazo d))
      \<and> col (quote_row tp fecha d) ''settle_date''
          = timePtr (settleDateOf tp (FechaLiquidacion d))
      \<and> (\<forall>c \<in> set forex_cols - {''settle'', ''settle_date'', ''hora''}.
            col (quote_row tp fecha d) c \<noteq> Null))
   \<and> (connect_ok e \<and> prepare_ok e \<and> max_date e = Some cutoff \<and> r \<in> set df
      \<and> tp ''2006-01-02'' (date_col r) = Some date \<and> after_cutoff cutoff date
    \<longrightarrow> legacy_row tp date r \<in> set (execs (db (saveToDatabase_legacy tp e df)))
      \<and> ((\<forall>k. exec_ok e k)
           \<longrightarrow> legacy_row tp date r \<in> set (stored (db (saveToDatabase_legacy tp e df))))
      \<and> (settle_col r = Some s \<and> Atoi s = None
           \<longrightarrow> col (legacy_row tp date r) ''settle'' = Null)
      \<and> (settle_date_col r = Some sd \<and> tp ''060102'' sd = None
           \<longrightarrow> col (legacy_row tp date r) ''settle_date'' = Null)
      \<and> col (legacy_row tp date r) ''settle'' = intPtr (legacy_settle (settle_col r))
      \<and> col (legacy_row tp date r) ''settle_date''
          = timePtr (legacy_settle_date tp (settle_date_col r))
      \<and> col (legacy_row tp date r) ''date'' = Timestamp date
      \<and> col (legacy_row tp date r) ''rueda'' = strVal (rueda_col r)
      \<and> col (legacy_row tp date r) ''instrumento'' = strVal (instrumento_col r)
      \<and> col (legacy_row tp date r) ''currency_out'' = strVal (currency_out_col r)
      \<and> col (legacy_row tp date r) ''currency_in'' = strVal (currency_in_col r)
      \<and> col (legacy_row tp date r) ''monto'' = floatVal (monto_col r)
      \<and> col (legacy_row tp date r) ''cotizacion'' = floatVal (cotizacion_col r)
      \<and> col (legacy_row tp date r) ''hora'' = strVal (hora_col r))"
proof (intro conjI impI; (elim conjE)?)
  assume h: "connect_ok e" "prepare_ok e" "max_date e = Some cutoff" "d \<in> set data"
    "tp layoutISO (Fecha d) = Some fecha" "after_cutoff cutoff fecha"
  have m: "quote_row tp fecha d \<in> set (submitted tp (scanLastDate (max_date e)) data)"
    using h after_cutoff_passes [of cutoff fecha] by (simp add: submitted_member)
  show "quote_row tp fecha d \<in> set (execs (db (saveToDatabase tp e data)))"
    using m h by (simp add: saveToDatabase_run)
  show "quote_row tp fecha d \<in> set (stored (db (saveToDatabase tp e data)))"
    if "\<forall>k. exec_ok e k"
    using m h that by (simp add: saveToDatabase_run accepted_all)
  show "col (quote_row tp fecha d) ''settle'' = Null" if "Atoi (Plazo d) = None"
    using that by (simp add: quote_row_cols settleOf_def intPtr_def)
  show "col (quote_row tp fecha d) ''settle_date'' = Null"
    if "tp layoutISO (FechaLiquidacion d) = None"
    using that by (simp add: quote_row_cols settleDateOf_def timePtr_def)
  show "col (quote_row tp fecha d) ''settle'' = intPtr (settleOf (Plazo d))"
    and "col (quote_row tp fecha d) ''settle_date''
          = timePtr (settleDateOf tp (FechaLiquidacion d))"
    by (simp_all add: quote_row_cols)
  show "\<forall>c \<in> set forex_cols - {''settle'', ''settle_date'', ''hora''}.
            col (quote_row tp fecha d) c \<noteq> Null"
    by (rule quote_row_not_null)
next
  assume h: "connect_ok e" "prepare_ok e" "max_date e = Some cutoff" "r \<in> set df"
    "tp ''2006-01-02'' (date_col r) = Some date" "after_cutoff cutoff date"
  have m: "legacy_row tp date r \<in> set (submitted_legacy tp (scanLastDate (max_date e)) df)"
    using h after_cutoff_passes [of cutoff date] by (simp add: submitted_legacy_member)
  show "legacy_row tp date r \<in> set (execs (db (saveToDatabase_legacy tp e df)))"
    using m h by (simp add: saveToDatabase_legacy_run)
  show "legacy_row tp date r \<in> set (stored (db (saveToDatabase_legacy tp e df)))"
    if "\<forall>k. exec_ok e k"
    using m h that by (simp add: saveToDatabase_legacy_run accepted_all)
  show "col (legacy_row tp date r) ''settle'' = Null"
    if "settle_col r = Some s" "Atoi s = None"
    using that by (simp add: legacy_row_cols legacy_settle_def intPtr_def)
  show "col (legacy_row tp date r) ''settle_date'' = Null"
    if "settle_date_col r = Some sd" "tp ''060102'' sd = None"
    using that by (simp add: legacy_row_cols legacy_settle_date_def timePtr_def)
qed (simp_all add: legacy_row_cols)

theorem optional_field_failure_witness:
  "quote_row time_Parse (Date 2024 11 15 0 0 0)
      (quote ''2024-11-15T00:00:00'' ''CI'' ''2024-13-45T00:00:00'')
     \<in> set (stored (db (saveToDatabase time_Parse (db_env (Some None))
           [quote ''2024-11-15T00:00:00'' ''CI'' ''2024-13-45T00:00:00''])))
   \<and> col (quote_row time_Parse (Date 2024 11 15 0 0 0)
        (quote ''2024-11-15T00:00:00'' ''CI'' ''2024-13-45T00:00:00'')) ''settle'' = Null
   \<and> col (quote_row time_Parse (Date 2024 11 15 0 0 0)
        (quote ''2024-11-15T00:00:00'' ''CI'' ''2024-13-45T00:00:00'')) ''settle_date'' = Null
   \<and> legacy_row time_Parse (Date 2024 11 15 0 0 0)
        (frame_row ''2024-11-15'' ''99999999999999999999'' ''241345'')
     \<in> set (stored (db (saveToDatabase_legacy time_Parse (db_env (Some None))
           [frame_row ''2024-11-15'' ''99999999999999999999'' ''241345''])))
   \<and> col (legacy_row time_Parse (Date 2024 11 15 0 0 0)
        (frame_row ''2024-11-15'' ''99999999999999999999'' ''241345'')) ''settle'' = Null
   \<and> col (legacy_row time_Parse (Date 2024 11 15 0 0 0)
        (frame_row ''2024-11-15'' ''99999999999999999999'' ''241345'')) ''settle_date'' = Null"
proof -
  let ?q = "quote ''2024-11-15T00:00:00'' ''CI'' ''2024-13-45T00:00:00''"
  let ?r = "frame_row ''2024-11-15'' ''99999999999999999999'' ''241345''"
  let ?e = "db_env (Some None)"
  have hq: "connect_ok ?e \<and> prepare_ok ?e \<and> max_date ?e = Some None \<and> ?q \<in> set [?q]
      \<and> time_Parse layoutISO (Fecha ?q) = Some (Date 2024 11 15 0 0 0)
      \<and> after_cutoff None (Date 2024 11 15 0 0 0)"
    by (simp add: db_env_def quote_def parse_examples after_cutoff_def)
  have hr: "connect_ok ?e \<and> prepare_ok ?e \<and> max_date ?e = Some None \<and> ?r \<in> set [?r]
      \<and> time_Parse ''2006-01-02'' (date_col ?r) = Some (Date 2024 11 15 0 0 0)
      \<and> after_cutoff None (Date 2024 11 15 0 0 0)"
    by (simp add: db_env_def frame_row_def parse_examples after_cutoff_def)
  have ok: "\<forall>k. exec_ok ?e k"
    by (simp add: db_env_def all_ok_def)
  have fq: "Atoi (Plazo ?q) = None" "time_Parse layoutISO (FechaLiquidacion ?q) = None"
    by (simp_all add: quote_def parse_examples atoi_examples)
  have fr: "settle_col ?r = Some ''99999999999999999999'' \<and> Atoi ''99999999999999999999'' = None"
    "settle_date_col ?r = Some ''241345'' \<and> time_Parse ''060102'' ''241345'' = None"
    by (simp_all add: frame_row_def parse_examples atoi_examples)
  note th = optional_field_failure
    [where e = ?e and cutoff = None and d = ?q and data = "[?q]" and tp = time_Parse
       and fecha = "Date 2024 11 15 0 0 0" and r = ?r and df = "[?r]"
       and date = "Date 2024 11 15 0 0 0" and s = "''99999999999999999999''"
       and sd = "''241345''"]
  note cq = th [THEN conjunct1, THEN mp, OF hq]
  note cr = th [THEN conjunct2, THEN mp, OF hr]
  have "quote_row time_Parse (Date 2024 11 15 0 0 0) ?q
        \<in> set (stored (db (saveToDatabase time_Parse ?e [?q])))"
    using cq [THEN conjunct2, THEN conjunct1] ok by (rule mp)
  moreover have "col (quote_row time_Parse (Date 2024 11 15 0 0 0) ?q) ''settle'' = Null"
    using cq [THEN conjunct2, THEN conjunct2, THEN conjunct1] fq(1) by (rule mp)
  moreover have "col (quote_row time_Parse (Date 2024 11 15 0 0 0) ?q) ''settle_date'' = Null"
    using cq [THEN conjunct2, THEN conjunct2, THEN conjunct2, THEN conjunct1] fq(2) by (rule mp)
  moreover have "legacy_row time_Parse (Date 2024 11 15 0 0 0) ?r
        \<in> set (stored (db (saveToDatabase_legacy time_Parse ?e [?r])))"
    using cr [THEN conjunct2, THEN conjunct1] ok by (rule mp)
  moreover have "col (legacy_row time_Parse (Date 2024 11 15 0 0 0) ?r) ''settle'' = Null"
    using cr [THEN conjunct2, THEN conjunct2, THEN conjunct1] fr(1) by (rule mp)
  moreover have "col (legacy_row time_Parse (Date 2024 11 15 0 0 0) ?r) ''settle_date'' = Null"
    using cr [THEN conjunct2, THEN conjunct2, THEN conjunct2, THEN conjunct1] fr(2) by (rule mp)
  ultimately show ?thesis
    by (intro conjI)
qed


text \<open>
  Claim C1, as the code has it. For every batch and every cutoff other than the zero
  time, the load passes to \<open>Exec\<close> exactly the records whose parsed date is strictly
  after the cutoff, in the order of the batch, and every record with a parsed date
  when the table has no rows; the rows stored are those of them the database accepts,
  and the counter is their number. So every row of a run is dated after the cutoff,
  and a record dated on or before it is not inserted again. A stored maximum equal to
  the zero time (0001-01-01T00:00:00 UTC) is read as no cutoff: then every record with
  a parsed date is submitted.
\<close>

theorem incremental_load_after_cutoff:
  "(connect_ok e \<and> prepare_ok e \<and> max_date e = Some cutoff \<and> cutoff \<noteq> Some 0
    \<longrightarrow> execs (db (saveToDatabase tp e data)) = qualifying tp cutoff data
      \<and> stored (db (saveToDatabase tp e data))
          = accepted (exec_ok e) 0 (qualifying tp cutoff data)
      \<and> rows_inserted (saveToDatabase tp e data)
          = length (stored (db (saveToDatabase tp e data)))
      \<and> execs (db (saveToDatabase_legacy tp e df)) = qualifying_legacy tp cutoff df
      \<and> stored (db (saveToDatabase_legacy tp e df))
          = accepted (exec_ok e) 0 (qualifying_legacy tp cutoff df)
      \<and> rows_inserted (saveToDatabase_legacy tp e df)
          = length (stored (db (saveToDatabase_legacy tp e df)))
      \<and> (\<forall>row \<in> set (execs (db (saveToDatabase tp e data)))
                  \<union> set (execs (db (saveToDatabase_legacy tp e df))).
            \<exists>t. col row ''date'' = Timestamp t \<and> after_cutoff cutoff t)
      \<and> (\<forall>d \<in> set data. \<forall>fecha c.
            tp layoutISO (Fecha d) = Some fecha \<and> cutoff = Some c \<and> fecha \<le> c
            \<longrightarrow> quote_row tp fecha d \<notin> set (execs (db (saveToDatabase tp e data)))))
   \<and> (connect_ok e \<and> prepare_ok e \<and> max_date e = Some (Some 0)
    \<longrightarrow> execs (db (saveToDatabase tp e data)) = qualifying tp None data
      \<and> execs (db (saveToDatabase_legacy tp e df)) = qualifying_legacy tp None df)"
proof (intro conjI impI; (elim conjE)?)
  assume h: "connect_ok e" "prepare_ok e" "max_date e = Some cutoff" "cutoff \<noteq> Some 0"
  show q: "execs (db (saveToDatabase tp e data)) = qualifying tp cutoff data"
    using h by (simp add: saveToDatabase_run submitted_qualifying)
  show "stored (db (saveToDatabase tp e data))
          = accepted (exec_ok e) 0 (qualifying tp cutoff data)"
    using h by (simp add: saveToDatabase_run submitted_qualifying)
  show "rows_inserted (saveToDatabase tp e data)
          = length (stored (db (saveToDatabase tp e data)))"
    using h by (simp add: saveToDatabase_run)
  show l: "execs (db (saveToDatabase_legacy tp e df)) = qualifying_legacy tp cutoff df"
    using h by (simp add: saveToDatabase_legacy_run submitted_legacy_qualifying)
  show "stored (db (saveToDatabase_legacy tp e df))
          = accepted (exec_ok e) 0 (qualifying_legacy tp cutoff df)"
    using h by (simp add: saveToDatabase_legacy_run submitted_legacy_qualifying)
  show "rows_inserted (saveToDatabase_legacy tp e df)
          = length (stored (db (saveToDatabase_legacy tp e df)))"
    using h by (simp add: saveToDatabase_legacy_run)
  show "\<forall>row \<in> set (execs (db (saveToDatabase tp e data)))
                  \<union> set (execs (db (saveToDatabase_legacy tp e df))).
            \<exists>t. col row ''date'' = Timestamp t \<and> after_cutoff cutoff t"
    unfolding q l using qualifying_dates qualifying_legacy_dates by blast
  show "\<forall>d \<in> set data. \<forall>fecha c.
            tp layoutISO (Fecha d) = Some fecha \<and> cutoff = Some c \<and> fecha \<le> c
            \<longrightarrow> quote_row tp fecha d \<notin> set (execs (db (saveToDatabase tp e data)))"
  proof (intro ballI allI impI notI; elim conjE)
    fix d fecha c
    assume "cutoff = Some c" "fecha \<le> c"
      and "quote_row tp fecha d \<in> set (execs (db (saveToDatabase tp e data)))"
    then show False
      using qualifying_dates [of "quote_row tp fecha d" tp cutoff data]
      by (simp add: q quote_row_cols after_cutoff_def)
  qed
next
  assume h: "connect_ok e" "prepare_ok e" "max_date e = Some (Some 0)"
  show "execs (db (saveToDatabase tp e data)) = qualifying tp None data"
    using h by (simp add: saveToDatabase_run scanLastDate_def submitted_zero)
  show "execs (db (saveToDatabase_legacy tp e df)) = qualifying_legacy tp None df"
    using h by (simp add: saveToDatabase_legacy_run scanLastDate_def submitted_legacy_zero)
qed

text \<open>
  The claim as stated fails at the cutoff 0001-01-01: a record dated 0001-01-01 is not
  strictly after it, and the run inserts it.
\<close>

theorem zero_cutoff_counterexample:
  "connect_ok (db_env (Some (Some 0))) \<and> prepare_ok (db_env (Some (Some 0)))
   \<and> max_date (db_env (Some (Some 0))) = Some (Some 0)
   \<and> time_Parse layoutISO (Fecha (quote ''0001-01-01T00:00:00'' ''000'' [])) = Some 0
   \<and> qualifying time_Parse (Some 0) [quote ''0001-01-01T00:00:00'' ''000'' []] = []
   \<and> execs (db (saveToDatabase time_Parse (db_env (Some (Some 0)))
        [quote ''0001-01-01T00:00:00'' ''000'' []]))
      = [quote_row time_Parse 0 (quote ''0001-01-01T00:00:00'' ''000'' [])]
   \<and> rows_inserted (saveToDatabase time_Parse (db_env (Some (Some 0)))
        [quote ''0001-01-01T00:00:00'' ''000'' []]) = 1"
  by (simp add: saveToDatabase_run db_env_def submitted_def qualifying_def after_cutoff_def
        List.map_filter_simps quote_def parse_examples scanLastDate_def IsZero_def all_ok_def)

theorem incremental_load_after_cutoff_witness:
  "execs (db (saveToDatabase time_Parse (db_env (Some (Some (Date 2024 11 14 0 0 0))))
      [quote ''2024-11-14T00:00:00'' ''000'' [], quote ''2024-11-15T00:00:00'' ''000'' []]))
     = [quote_row time_Parse (Date 2024 11 15 0 0 0) (quote ''2024-11-15T00:00:00'' ''000'' [])]
   \<and> rows_inserted (saveToDatabase time_Parse (db_env (Some (Some (Date 2024 11 14 0 0 0))))
      [quote ''2024-11-14T00:00:00'' ''000'' [], quote ''2024-11-15T00:00:00'' ''000'' []]) = 1
   \<and> execs (db (saveToDatabase_legacy time_Parse (db_env (Some (Some (Date 2024 11 14 0 0 0))))
      [frame_row ''2024-11-14'' ''000'' ''241115'', frame_row ''2024-11-15'' ''000'' ''241115'']))
     = [legacy_row time_Parse (Date 2024 11 15 0 0 0)
          (frame_row ''2024-11-15'' ''000'' ''241115'')]"
proof -
  let ?e = "db_env (Some (Some (Date 2024 11 14 0 0 0)))"
  let ?data = "[quote ''2024-11-14T00:00:00'' ''000'' [], quote ''2024-11-15T00:00:00'' ''000'' []]"
  let ?df = "[frame_row ''2024-11-14'' ''000'' ''241115'', frame_row ''2024-11-15'' ''000'' ''241115'']"
  have h: "connect_ok ?e \<and> prepare_ok ?e \<and> max_date ?e = Some (Some (Date 2024 11 14 0 0 0))
      \<and> Some (Date 2024 11 14 0 0 0) \<noteq> Some 0"
    by (simp add: db_env_def date_values)
  note th = incremental_load_after_cutoff
    [where e = ?e and cutoff = "Some (Date 2024 11 14 0 0 0)" and tp = time_Parse
       and data = ?data and df = ?df, THEN conjunct1, THEN mp, OF h]
  have q: "qualifying time_Parse (Some (Date 2024 11 14 0 0 0)) ?data
     = [quote_row time_Parse (Date 2024 11 15 0 0 0) (quote ''2024-11-15T00:00:00'' ''000'' [])]"
    by (simp add: qualifying_def List.map_filter_simps quote_def parse_examples after_cutoff_def
          date_values)
  have l: "qualifying_legacy time_Parse (Some (Date 2024 11 14 0 0 0)) ?df
     = [legacy_row time_Parse (Date 2024 11 15 0 0 0) (frame_row ''2024-11-15'' ''000'' ''241115'')]"
    by (simp add: qualifying_legacy_def List.map_filter_simps frame_row_def parse_examples
          after_cutoff_def date_values)
  have ok: "exec_ok ?e = all_ok"
    by (simp add: db_env_def)
  have "execs (db (saveToDatabase time_Parse ?e ?data))
     = [quote_row time_Parse (Date 2024 11 15 0 0 0) (quote ''2024-11-15T00:00:00'' ''000'' [])]"
    using th [THEN conjunct1] q by simp
  moreover have "rows_inserted (saveToDatabase time_Parse ?e ?data) = 1"
    using th [THEN conjunct2, THEN conjunct1] th [THEN conjunct2, THEN conjunct2, THEN conjunct1]
      q ok by (simp add: all_ok_def)
  moreover have "execs (db (saveToDatabase_legacy time_Parse ?e ?df))
     = [legacy_row time_Parse (Date 2024 11 15 0 0 0) (frame_row ''2024-11-15'' ''000'' ''241115'')]"
    using th [THEN conjunct2, THEN conjunct2, THEN conjunct2, THEN conjunct1] l by simp
  ultimately show ?thesis
    by (intro conjI)
qed









lemma copy_of_cols:
  "zip sync_insert_cols
     (map (col (zip (map fst scan_dests) (map (col r) sync_select_cols))) exec_args)
   = copy_of r"
  by (simp add: copy_of_def sync_insert_cols_def sync_select_cols_def scan_dests_def
        exec_args_def col_def)

lemma copy_of_col:
  "\<forall>c \<in> set sync_select_cols. col (copy_of r) c = col r c"
  unfolding sync_select_cols_def list.set ball_simps
  by (simp add: copy_of_def sync_select_cols_def col_def)

lemma date_of_copy: "date_of (copy_of r) = date_of r"
  using copy_of_col [of r] by (simp add: date_of_def sync_select_cols_def)

lemma syncLoop_result:
  assumes "\<And>k. good k" and "\<forall>r \<in> set rs. well_typed r"
  shows "syncLoop good ok i (map (\<lambda>r. map (col r) sync_select_cols) rs) (c, n) =
     (\<lparr>execs = execs c @ map copy_of rs,
       stored = stored c @ accepted ok (length (execs c)) (map copy_of rs)\<rparr>,
      n + length (accepted ok (length (execs c)) (map copy_of rs)))"
  using assms(2)
proof (induction rs arbitrary: i c n)
  case Nil
  show ?case by simp
next
  case (Cons r rs)
  have s: "Scan (good i) (map (col r) sync_select_cols)
      = Some (zip (map fst scan_dests) (map (col r) sync_select_cols))"
    using assms(1) Cons.prems by (simp add: Scan_def well_typed_def)
  show ?case
    using Cons.prems
    by (cases "ok (length (execs c))") (simp_all add: s Exec_eq copy_of_cols Cons.IH)
qed


lemma main_sync_run:
  assumes "local_ok e" and "cloud_ok e" and "cloud_max e = Some m"
    and "local_rows e = Some src" and "cloud_prepare_ok e" and "\<And>k. scan_ok e k"
    and "\<forall>r \<in> set src. date_after (case m of None \<Rightarrow> Date 1900 1 1 0 0 0 | Some t \<Rightarrow> t) r
           \<longrightarrow> well_typed r"
  shows "db (main_sync e) =
     \<lparr>execs = map copy_of (sort_key date_of
                 (filter (date_after (case m of None \<Rightarrow> Date 1900 1 1 0 0 0 | Some t \<Rightarrow> t)) src)),
      stored = accepted (cloud_exec_ok e) 0 (map copy_of (sort_key date_of
                 (filter (date_after (case m of None \<Rightarrow> Date 1900 1 1 0 0 0 | Some t \<Rightarrow> t)) src)))\<rparr>"
    and "rows_inserted (main_sync e) = length (stored (db (main_sync e)))"
proof -
  let ?cut = "case m of None \<Rightarrow> Date 1900 1 1 0 0 0 | Some t \<Rightarrow> t"
  let ?rs = "sort_key date_of (filter (date_after ?cut) src)"
  have typed: "\<forall>r \<in> set ?rs. well_typed r"
    using assms(7) by simp
  have loop: "syncLoop (scan_ok e) (cloud_exec_ok e) 0 (Query src ?cut) (fresh, 0) =
     (\<lparr>execs = map copy_of ?rs, stored = accepted (cloud_exec_ok e) 0 (map copy_of ?rs)\<rparr>,
      length (accepted (cloud_exec_ok e) 0 (map copy_of ?rs)))"
    unfolding Query_def
    using syncLoop_result [where good = "scan_ok e" and rs = ?rs, OF assms(6) typed]
    by (simp add: fresh_def)
  show "db (main_sync e) =
     \<lparr>execs = map copy_of ?rs, stored = accepted (cloud_exec_ok e) 0 (map copy_of ?rs)\<rparr>"
    using assms(1-5) loop by (simp add: main_sync_def Let_def)
  show "rows_inserted (main_sync e) = length (stored (db (main_sync e)))"
    using assms(1-5) loop by (simp add: main_sync_def Let_def)
qed

text \<open>
  Claim C6, as the code has it. When both connections, the two queries and the
  \<open>Prepare\<close> succeed and every selected row scans, the sync passes to the cloud
  \<open>Exec\<close> exactly the local rows dated strictly after the cutoff, in ascending order
  of date, each as the copy of its 23 selected columns with every value unchanged; the
  rows stored are those the cloud database accepts. The cutoff is the cloud table's
  maximum date, or 1900-01-01 when the cloud table has no rows: the cloud table then
  receives the local rows dated after 1900-01-01, which is a full copy when every
  local row is.
\<close>

theorem sync_copies_newer_rows:
  "(local_ok e \<and> cloud_ok e \<and> cloud_max e = Some m \<and> local_rows e = Some src
      \<and> cloud_prepare_ok e \<and> (\<forall>k. scan_ok e k)
      \<and> cutoff = (case m of None \<Rightarrow> Date 1900 1 1 0 0 0 | Some t \<Rightarrow> t)
      \<and> (\<forall>r \<in> set src. date_after cutoff r \<longrightarrow> well_typed r)
    \<longrightarrow> execs (db (main_sync e))
          = map copy_of (sort_key date_of (filter (date_after cutoff) src))
      \<and> mset (execs (db (main_sync e)))
          = image_mset copy_of (filter_mset (date_after cutoff) (mset src))
      \<and> sorted (map date_of (execs (db (main_sync e))))
      \<and> stored (db (main_sync e))
          = accepted (cloud_exec_ok e) 0 (execs (db (main_sync e)))
      \<and> rows_inserted (main_sync e) = length (stored (db (main_sync e)))
      \<and> ((\<forall>r \<in> set src. date_after cutoff r)
           \<longrightarrow> mset (execs (db (main_sync e))) = image_mset copy_of (mset src)))
   \<and> (\<forall>c \<in> set sync_select_cols. col (copy_of r) c = col r c)"
proof (intro conjI impI; (elim conjE)?)
  assume h: "local_ok e" "cloud_ok e" "cloud_max e = Some m" "local_rows e = Some src"
    "cloud_prepare_ok e" "\<forall>k. scan_ok e k"
    "cutoff = (case m of None \<Rightarrow> Date 1900 1 1 0 0 0 | Some t \<Rightarrow> t)"
    "\<forall>r \<in> set src. date_after cutoff r \<longrightarrow> well_typed r"
  have run: "db (main_sync e) =
     \<lparr>execs = map copy_of (sort_key date_of (filter (date_after cutoff) src)),
      stored = accepted (cloud_exec_ok e) 0
                 (map copy_of (sort_key date_of (filter (date_after cutoff) src)))\<rparr>"
    using main_sync_run(1) [of e m src] h by simp
  show x: "execs (db (main_sync e))
          = map copy_of (sort_key date_of (filter (date_after cutoff) src))"
    by (simp add: run)
  show ms: "mset (execs (db (main_sync e)))
          = image_mset copy_of (filter_mset (date_after cutoff) (mset src))"
    by (simp add: x)
  have "map date_of (execs (db (main_sync e)))
      = map date_of (sort_key date_of (filter (date_after cutoff) src))"
    by (simp add: x date_of_copy)
  then show "sorted (map date_of (execs (db (main_sync e))))"
    by simp
  show "stored (db (main_sync e)) = accepted (cloud_exec_ok e) 0 (execs (db (main_sync e)))"
    by (simp add: run)
  show "rows_inserted (main_sync e) = length (stored (db (main_sync e)))"
    using main_sync_run(2) [of e m src] h by simp
  show "mset (execs (db (main_sync e))) = image_mset copy_of (mset src)"
    if "\<forall>r \<in> set src. date_after cutoff r"
  proof -
    have "filter_mset (date_after cutoff) (mset src) = mset src"
      using that by (simp add: filter_mset_eq_conv)
    then show ?thesis by (simp add: ms)
  qed
next
  show "\<forall>c \<in> set sync_select_cols. col (copy_of r) c = col r c"
    by (rule copy_of_col)
qed


lemma stored_row_facts:
  "well_typed (stored_row t)"
  "date_of (stored_row t) = t"
  "date_after cutoff (stored_row t) = (cutoff < t)"
  by (simp_all add: well_typed_def stored_row_def scan_dests_def sync_select_cols_def col_def
        date_of_def date_after_def)

lemma more_date_values:
  "Date 1899 12 31 0 0 0 = 59926521600000000000"
  by code_simp

text \<open>
  The claim as stated fails for an empty cloud table and a local row dated
  1899-12-31: the row is not after the sentinel and is not copied.
\<close>

theorem old_rows_counterexample:
  "local_ok (sync_env (Some None) [stored_row (Date 1899 12 31 0 0 0)])
   \<and> cloud_ok (sync_env (Some None) [stored_row (Date 1899 12 31 0 0 0)])
   \<and> cloud_prepare_ok (sync_env (Some None) [stored_row (Date 1899 12 31 0 0 0)])
   \<and> cloud_max (sync_env (Some None) [stored_row (Date 1899 12 31 0 0 0)]) = Some None
   \<and> local_rows (sync_env (Some None) [stored_row (Date 1899 12 31 0 0 0)])
      = Some [stored_row (Date 1899 12 31 0 0 0)]
   \<and> well_typed (stored_row (Date 1899 12 31 0 0 0))
   \<and> execs (db (main_sync (sync_env (Some None) [stored_row (Date 1899 12 31 0 0 0)]))) = []
   \<and> rows_inserted (main_sync (sync_env (Some None) [stored_row (Date 1899 12 31 0 0 0)])) = 0"
  by (simp add: main_sync_def sync_env_def Let_def Query_def stored_row_facts date_values
        more_date_values fresh_def)

theorem sync_copies_newer_rows_witness:
  "execs (db (main_sync (sync_env (Some None)
      [stored_row (Date 2024 11 15 0 0 0), stored_row (Date 2024 11 14 0 0 0)])))
     = [copy_of (stored_row (Date 2024 11 14 0 0 0)), copy_of (stored_row (Date 2024 11 15 0 0 0))]
   \<and> stored (db (main_sync (sync_env (Some None)
      [stored_row (Date 2024 11 15 0 0 0), stored_row (Date 2024 11 14 0 0 0)])))
     = [copy_of (stored_row (Date 2024 11 14 0 0 0)), copy_of (stored_row (Date 2024 11 15 0 0 0))]
   \<and> mset (execs (db (main_sync (sync_env (Some None)
      [stored_row (Date 2024 11 15 0 0 0), stored_row (Date 2024 11 14 0 0 0)]))))
     = image_mset copy_of
         (mset [stored_row (Date 2024 11 15 0 0 0), stored_row (Date 2024 11 14 0 0 0)])
   \<and> col (copy_of (stored_row (Date 2024 11 14 0 0 0))) ''instrumento'' = Text ''USB / ART 000''
   \<and> col (copy_of (stored_row (Date 2024 11 14 0 0 0))) ''date''
     = Timestamp (Date 2024 11 14 0 0 0)"
proof -
  let ?src = "[stored_row (Date 2024 11 15 0 0 0), stored_row (Date 2024 11 14 0 0 0)]"
  let ?e = "sync_env (Some None) ?src"
  let ?cut = "Date 1900 1 1 0 0 0"
  have h: "local_ok ?e \<and> cloud_ok ?e \<and> cloud_max ?e = Some None \<and> local_rows ?e = Some ?src
      \<and> cloud_prepare_ok ?e \<and> (\<forall>k. scan_ok ?e k)
      \<and> ?cut = (case None of None \<Rightarrow> Date 1900 1 1 0 0 0 | Some t \<Rightarrow> t)
      \<and> (\<forall>r \<in> set ?src. date_after ?cut r \<longrightarrow> well_typed r)"
    by (simp add: sync_env_def all_ok_def stored_row_facts)
  have all: "\<forall>r \<in> set ?src. date_after ?cut r"
    by (simp add: stored_row_facts date_values)
  have ok: "cloud_exec_ok ?e = all_ok"
    by (simp add: sync_env_def)
  note th = sync_copies_newer_rows
    [where e = ?e and m = None and src = ?src and cutoff = ?cut
       and r = "stored_row (Date 2024 11 14 0 0 0)"]
  note run = th [THEN conjunct1, THEN mp, OF h]
  have x: "execs (db (main_sync ?e))
     = [copy_of (stored_row (Date 2024 11 14 0 0 0)), copy_of (stored_row (Date 2024 11 15 0 0 0))]"
    using run [THEN conjunct1] by (simp add: stored_row_facts date_values)
  have st: "stored (db (main_sync ?e))
     = [copy_of (stored_row (Date 2024 11 14 0 0 0)), copy_of (stored_row (Date 2024 11 15 0 0 0))]"
    using run [THEN conjunct2, THEN conjunct2, THEN conjunct2, THEN conjunct1]
    by (simp add: x ok all_ok_def)
  have ms: "mset (execs (db (main_sync ?e))) = image_mset copy_of (mset ?src)"
    using run [THEN conjunct2, THEN conjunct2, THEN conjunct2, THEN conjunct2, THEN conjunct2]
      all by (rule mp)
  have c: "col (copy_of (stored_row (Date 2024 11 14 0 0 0))) ''instrumento''
        = Text ''USB / ART 000''"
    "col (copy_of (stored_row (Date 2024 11 14 0 0 0))) ''date''
        = Timestamp (Date 2024 11 14 0 0 0)"
    using th [THEN conjunct2]
    by (simp_all add: sync_select_cols_def stored_row_def col_def)
  show ?thesis
    using x st ms c by (intro conjI)
qed


lemma saveToDatabase_releases:
  "unreleased (trace (saveToDatabase tp e data)) [] = []"
  "unreleased (trace (saveToDatabase_legacy tp e df)) [] = []"
  by (auto simp: saveToDatabase_def saveToDatabase_legacy_def Let_def returns_def fatal_def
        split: prod.splits)

lemma main_historico_releases:
  "unreleased (trace (main_historico tp h)) [] = []"
  by (auto simp: main_historico_def Let_def returns_def fatal_def
        split: prod.splits option.splits)

lemma main_sync_returns:
  assumes "local_ok e" and "cloud_ok e" and "cloud_max e = Some m"
    and "local_rows e = Some src" and "cloud_prepare_ok e"
  shows "trace (main_sync e)
           = [Open ''local'', Open ''gcloud'', Close ''gcloud'', Close ''local'']"
    and "unreleased (trace (main_sync e)) [] = []"
  using assms
  by (auto simp: main_sync_def Let_def returns_def split: prod.splits)

text \<open>
  Claim C9 asks that every opened connection is released before the process ends, on
  every path. The jobs release through \<open>defer conn.Close\<close>, which runs when
  \<open>main\<close> or \<open>saveToDatabase\<close> returns (the three lemmas above), but \<open>log.Fatalf\<close>
  ends the process without running deferred calls. In the sync job a fatal error
  after the local connection is opened therefore leaves it open: the failed cloud
  connection ends the process with the local connection unreleased, and a failed
  query or \<open>Prepare\<close> ends it with both unreleased.
\<close>

theorem fatal_exit_leaves_connections_open:
  "(local_ok e \<and> \<not> cloud_ok e
    \<longrightarrow> trace (main_sync e) = [Open ''local'', Exit 1]
      \<and> unreleased (trace (main_sync e)) [] = [''local''])
   \<and> (local_ok e \<and> cloud_ok e
        \<and> (cloud_max e = None \<or> local_rows e = None \<or> \<not> cloud_prepare_ok e)
    \<longrightarrow> trace (main_sync e) = [Open ''local'', Open ''gcloud'', Exit 1]
      \<and> unreleased (trace (main_sync e)) [] = [''local'', ''gcloud''])"
  by (auto simp: main_sync_def Let_def fatal_def split: option.splits)

theorem fatal_exit_leaves_connections_open_witness:
  "local_ok cloud_down \<and> \<not> cloud_ok cloud_down
   \<and> trace (main_sync cloud_down) = [Open ''local'', Exit 1]
   \<and> unreleased (trace (main_sync cloud_down)) [] = [''local'']"
proof -
  have h: "local_ok cloud_down \<and> \<not> cloud_ok cloud_down"
    by (simp add: cloud_down_def)
  from fatal_exit_leaves_connections_open [of cloud_down, THEN conjunct1, THEN mp, OF h] h
  show ?thesis by simp
qed

end
